theory Spec2Isabelle
  imports Complex_Main
begin

section \<open>Values, errors and batches\<close>

text \<open>
  The codec of \<^verbatim>\<open>julian/iso_parser.py\<close> and \<^verbatim>\<open>julian/formatter.py\<close> works on
  Python numbers, strings and NumPy arrays. Python's \<^verbatim>\<open>int\<close> is \<^typ>\<open>int\<close>; a Python
  \<^verbatim>\<open>float\<close> is idealised as an exact rational, so nothing below speaks about IEEE
  rounding. A value that may be a scalar or a batch is an \<open>nd\<close>; batches are
  one-dimensional (a list), which is the shape every claim is read at.
  Every \<^verbatim>\<open>raise\<close> of the source is an \<open>Inl\<close> of the result.
\<close>

datatype error =
    ValueError string
  | IndexError string

datatype num = PyInt int | PyFloat rat

datatype 'a nd = Scalar 'a | Array "'a list"

fun to_rat :: "num \<Rightarrow> rat" where
  "to_rat (PyInt i) = of_int i"
| "to_rat (PyFloat r) = r"

fun nd_list :: "'a nd \<Rightarrow> 'a list" where
  "nd_list (Scalar x) = [x]"
| "nd_list (Array xs) = xs"

fun nd_map :: "('a \<Rightarrow> 'b) \<Rightarrow> 'a nd \<Rightarrow> 'b nd" where
  "nd_map f (Scalar x) = Scalar (f x)"
| "nd_map f (Array xs) = Array (map f xs)"

fun is_scalar :: "'a nd \<Rightarrow> bool" where
  "is_scalar (Scalar x) = True"
| "is_scalar (Array xs) = False"

text \<open>\<^verbatim>\<open>a[len(a.shape) * (0,)]\<close>: the first element; an empty batch has none.\<close>

fun nd_first :: "'a nd \<Rightarrow> error + 'a" where
  "nd_first (Scalar x) = Inr x"
| "nd_first (Array []) = Inl (IndexError ''index 0 is out of bounds for axis 0 with size 0'')"
| "nd_first (Array (x # xs)) = Inr x"

definition ebind :: "error + 'a \<Rightarrow> ('a \<Rightarrow> error + 'b) \<Rightarrow> error + 'b" where
  "ebind r f = (case r of Inl e \<Rightarrow> Inl e | Inr x \<Rightarrow> f x)"

text \<open>An element-wise operation that may raise: the first failing element aborts the call.\<close>

fun list_mapE :: "('a \<Rightarrow> error + 'b) \<Rightarrow> 'a list \<Rightarrow> error + 'b list" where
  "list_mapE f [] = Inr []"
| "list_mapE f (x # xs) =
     (case f x of Inl e \<Rightarrow> Inl e
      | Inr y \<Rightarrow> (case list_mapE f xs of Inl e \<Rightarrow> Inl e | Inr ys \<Rightarrow> Inr (y # ys)))"

fun nd_mapE :: "('a \<Rightarrow> error + 'b) \<Rightarrow> 'a nd \<Rightarrow> error + 'b nd" where
  "nd_mapE f (Scalar x) = (case f x of Inl e \<Rightarrow> Inl e | Inr y \<Rightarrow> Inr (Scalar y))"
| "nd_mapE f (Array xs) = (case list_mapE f xs of Inl e \<Rightarrow> Inl e | Inr ys \<Rightarrow> Inr (Array ys))"

subsection \<open>Byte strings\<close>

definition blank :: char where "blank = CHR '' ''"
definition nullc :: char where "nullc = CHR 0x00"
definition dquote :: char where "dquote = CHR 0x22"

text \<open>
  A NumPy array of dtype \<^verbatim>\<open>S\<close>\<open>n\<close>: every element is exactly \<open>itemsize\<close> bytes, short
  strings padded with nulls; reading an element drops the trailing nulls.
\<close>

record sarr =
  itemsize :: nat
  elems :: "string nd"

definition rstrip_null :: "string \<Rightarrow> string" where
  "rstrip_null s = rev (dropWhile (\<lambda>c. c = nullc) (rev s))"

definition pad_null :: "nat \<Rightarrow> string \<Rightarrow> string" where
  "pad_null n s = take n (s @ replicate (n - length s) nullc)"

text \<open>\<^verbatim>\<open>np.array(strings).astype('S')\<close> on Python strings: the item size is the longest
  length (at least one byte).\<close>

definition astype_S :: "string nd \<Rightarrow> sarr" where
  "astype_S ss =
     (let n = max 1 (fold max (map length (nd_list ss)) 0)
      in \<lparr>itemsize = n, elems = nd_map (pad_null n) ss\<rparr>)"

text \<open>\<^verbatim>\<open>str.find(c, start)\<close>: the first index at or after \<open>start\<close>, or \<open>-1\<close>.\<close>

fun find_loop :: "char \<Rightarrow> string \<Rightarrow> nat \<Rightarrow> int" where
  "find_loop c [] i = -1"
| "find_loop c (x # xs) i = (if x = c then int i else find_loop c xs (Suc i))"

definition py_find :: "string \<Rightarrow> char \<Rightarrow> nat \<Rightarrow> int" where
  "py_find s c start = find_loop c (drop start s) start"

text \<open>\<^verbatim>\<open>np.where(a == c)[0]\<close>: every index holding \<open>c\<close>.\<close>

definition np_where :: "string \<Rightarrow> char \<Rightarrow> nat list" where
  "np_where s c = filter (\<lambda>i. s ! i = c) [0..<length s]"

text \<open>Python indexing of a string by a possibly negative index.\<close>

definition py_index :: "string \<Rightarrow> int \<Rightarrow> error + char" where
  "py_index s i =
     (let n = int (length s); j = (if i < 0 then n + i else i)
      in if 0 \<le> j \<and> j < n then Inr (s ! nat j)
         else Inl (IndexError ''string index out of range''))"

text \<open>
  A field of a structured view: the bytes \<open>[off, off + w)\<close> of a record, read as a
  byte string (trailing nulls dropped).
\<close>

definition slice :: "int \<Rightarrow> int \<Rightarrow> string \<Rightarrow> string" where
  "slice off w s = take (nat w) (drop (nat off) s)"

definition field :: "int \<Rightarrow> int \<Rightarrow> string \<Rightarrow> string" where
  "field off w s = rstrip_null (slice off w s)"

text \<open>
  \<^verbatim>\<open>astype('int')\<close> on a byte-string field follows Python's \<^verbatim>\<open>int()\<close>: blanks around
  the text are skipped, one sign is allowed, and at least one decimal digit must follow;
  anything else raises \<^verbatim>\<open>ValueError\<close>.
\<close>

definition is_digit :: "char \<Rightarrow> bool" where
  "is_digit c = (c \<in> set ''0123456789'')"

definition digit_val :: "char \<Rightarrow> nat" where
  "digit_val c = of_char c - 48"

definition digits_val :: "string \<Rightarrow> nat" where
  "digits_val s = foldl (\<lambda>acc c. 10 * acc + digit_val c) 0 s"

text \<open>\<^verbatim>\<open>str(n)\<close> for a natural number.\<close>

definition digit_char :: "nat \<Rightarrow> char" where
  "digit_char n = ''0123456789'' ! n"

function str_nat :: "nat \<Rightarrow> string" where
  "str_nat n = (if n < 10 then [digit_char n] else str_nat (n div 10) @ [digit_char (n mod 10)])"
  by pat_completeness auto
termination
  by (relation "measure (\<lambda>n. n)") auto

declare str_nat.simps [simp del]

definition strip_blanks :: "string \<Rightarrow> string" where
  "strip_blanks s =
     rev (dropWhile (\<lambda>c. c = blank) (rev (dropWhile (\<lambda>c. c = blank) s)))"

definition py_int :: "string \<Rightarrow> error + int" where
  "py_int s =
     (let t = strip_blanks s;
          (neg, ds) = (case t of
                         [] \<Rightarrow> (False, [])
                       | c # cs \<Rightarrow> if c = CHR ''-'' then (True, cs)
                                  else if c = CHR ''+'' then (False, cs)
                                  else (False, t))
      in if ds \<noteq> [] \<and> list_all is_digit ds
         then Inr (if neg then - int (digits_val ds) else int (digits_val ds))
         else Inl (ValueError (''invalid literal for int() with base 10: '' @ s)))"

section \<open>The external calendar and time adapter\<close>

text \<open>
  \<^verbatim>\<open>julian.calendar\<close>, \<^verbatim>\<open>julian.leap_seconds\<close> and \<^verbatim>\<open>julian.time_of_day\<close> are
  imported by the two modules and are not part of them. They are a parameter of every
  function below: a record of the element-wise operations. The arguments are named as in
  the imports; the flags are \<open>validate\<close> and then \<open>proleptic\<close> or \<open>leapsecs\<close>.
\<close>

record adapter =
  day_from_ymd :: "int \<Rightarrow> int \<Rightarrow> int \<Rightarrow> bool \<Rightarrow> bool \<Rightarrow> error + int"
  day_from_yd :: "int \<Rightarrow> int \<Rightarrow> bool \<Rightarrow> bool \<Rightarrow> error + int"
  ymd_from_day :: "int \<Rightarrow> bool \<Rightarrow> int \<times> int \<times> int"
  yd_from_day :: "int \<Rightarrow> bool \<Rightarrow> int \<times> int"
  seconds_on_day :: "int \<Rightarrow> int"
  sec_from_hms :: "num \<Rightarrow> num \<Rightarrow> num \<Rightarrow> bool \<Rightarrow> bool \<Rightarrow> error + num"
  hms_from_sec :: "num \<Rightarrow> error + int \<times> int \<times> num"

section \<open>Decoding: \<^verbatim>\<open>iso_parser.py\<close>\<close>

subsection \<open>\<^verbatim>\<open>_count_white\<close>\<close>

text \<open>
  Each \<^verbatim>\<open>for\<close> loop leaves its variable at the index where it broke, or at the last
  index when it never broke; so a string of blanks only is counted one short.
\<close>

fun count_loop :: "string \<Rightarrow> nat \<Rightarrow> nat" where
  "count_loop [] l = l"
| "count_loop [c] l = l"
| "count_loop (c # cs) l = (if c \<noteq> blank then l else count_loop cs (Suc l))"

definition count_white :: "string \<Rightarrow> nat \<times> nat" where
  "count_white string =
     (if string = [] then (0, 0)
      else (count_loop string 0, count_loop (rev string) 0))"

subsection \<open>\<^verbatim>\<open>ISO_DATE_FORMAT_INFO\<close>\<close>

text \<open>key = (length, dash count); value = (y1, m0, d0, dlen, dash locations).\<close>

definition ISO_DATE_FORMAT_INFO :: "int \<times> nat \<Rightarrow> (int \<times> int \<times> int \<times> int \<times> int list) option" where
  "ISO_DATE_FORMAT_INFO key =
     (if key = (10, 2) then Some (4, 5, 8, 2, [4, 7])
      else if key = (8, 1) then Some (4, 0, 5, 3, [4])
      else if key = (8, 2) then Some (2, 3, 6, 2, [2, 5])
      else if key = (6, 1) then Some (2, 0, 3, 3, [2])
      else if key = (8, 0) then Some (4, 4, 6, 2, [])
      else if key = (7, 0) then Some (4, 0, 4, 3, [])
      else if key = (6, 0) then Some (2, 2, 4, 2, [])
      else if key = (5, 0) then Some (2, 0, 2, 3, [])
      else None)"

subsection \<open>\<^verbatim>\<open>day_from_iso\<close>: layout inference\<close>

text \<open>
  A \<^verbatim>\<open>dtype_dict\<close> maps a field name to its width and offset; it is kept as an
  association list in insertion order, looked up with \<^const>\<open>map_of\<close>.
\<close>

type_synonym dtype_dict = "(string \<times> int \<times> int) list"

definition has_key :: "dtype_dict \<Rightarrow> string \<Rightarrow> bool" where
  "has_key dd k = (map_of dd k \<noteq> None)"

record day_layout =
  dl_w0 :: int
  dl_w1 :: int
  dl_w2 :: int
  dl_kdot :: int
  dl_kend :: int
  dl_kints :: int
  dl_ndashes :: nat
  dl_m0 :: int
  dl_flen :: int
  dl_dtype :: dtype_dict

definition date_format_error :: "string \<Rightarrow> error" where
  "date_format_error first =
     ValueError (''unrecognized ISO date format: '' @ [dquote] @ first @ [dquote])"

definition dash_fields :: "int \<Rightarrow> int list \<Rightarrow> dtype_dict" where
  "dash_fields w0 dashes =
     map (\<lambda>(i, dash). (''dash'' @ str_nat i, 1, w0 + dash))
         (zip [0..<length dashes] dashes)"

text \<open>
  The quantities the classification reads, each as the source computes it:
  \<^verbatim>\<open>w0\<close>, \<^verbatim>\<open>w1\<close>, \<^verbatim>\<open>lstripped = lfirst - w0 - w1\<close>, \<^verbatim>\<open>kdot\<close>, \<^verbatim>\<open>kend\<close>,
  \<^verbatim>\<open>kints\<close> and the dictionary key \<^verbatim>\<open>(kints - w0, ndashes)\<close>.
\<close>

definition leading_white :: "bool \<Rightarrow> string \<Rightarrow> int" where
  "leading_white strip first = (if strip then int (fst (count_white first)) else 0)"

definition trailing_white :: "bool \<Rightarrow> string \<Rightarrow> int" where
  "trailing_white strip first = (if strip then int (snd (count_white first)) else 0)"

definition stripped_length :: "bool \<Rightarrow> string \<Rightarrow> int" where
  "stripped_length strip first =
     int (length first) - leading_white strip first - trailing_white strip first"

definition date_kdot :: "string \<Rightarrow> int" where
  "date_kdot first = max 0 (py_find first CHR ''.'' 0)"

definition date_kend :: "bool \<Rightarrow> string \<Rightarrow> int" where
  "date_kend strip first = leading_white strip first + stripped_length strip first"

definition date_kints :: "bool \<Rightarrow> string \<Rightarrow> int" where
  "date_kints strip first =
     (if date_kdot first \<noteq> 0 then date_kdot first else date_kend strip first)"

definition date_key :: "bool \<Rightarrow> string \<Rightarrow> int \<times> nat" where
  "date_key strip first =
     (date_kints strip first - leading_white strip first, count_list first CHR ''-'')"

definition day_dtype_dict ::
  "bool \<Rightarrow> int \<Rightarrow> int \<Rightarrow> int \<Rightarrow> int \<Rightarrow> int \<Rightarrow> int \<Rightarrow> int
     \<Rightarrow> int \<times> int \<times> int \<times> int \<times> int list \<Rightarrow> dtype_dict" where
  "day_dtype_dict syntax_chk lfirst w0 w1 w2 kdot kend flen info =
     (case info of (y1, m0, d0, dlen, dashes) \<Rightarrow>
        [(''y'', y1, w0), (''d'', dlen, w0 + d0)]
        @ (if m0 \<noteq> 0 then [(''m'', 2, w0 + m0)] else [])
        @ (if w0 \<noteq> 0 then [(''white0'', w0, 0)] else [])
        @ dash_fields w0 dashes
        @ (if kdot \<noteq> 0
           then [(''dot'', 1, kdot)] @ (if flen \<noteq> 0 then [(''f'', flen, kdot + 1)] else [])
           else [])
        @ (if w1 \<noteq> 0 then [(''white1'', w1, kend)] else [])
        @ (if w2 \<noteq> 0 then [(''nulls'', 1, lfirst)] else [])
        @ (if syntax_chk then [(''data'', kend - w0, w0)] else []))"

definition day_from_iso_layout :: "bool \<Rightarrow> bool \<Rightarrow> nat \<Rightarrow> string \<Rightarrow> error + day_layout" where
  "day_from_iso_layout syntax_chk strip isize first =
     (let lfirst = int (length first);
          w2 = int isize - lfirst;
          w0 = leading_white strip first;
          w1 = trailing_white strip first;
          kdot = date_kdot first;
          kend = date_kend strip first;
          kints = date_kints strip first;
          ndashes = count_list first CHR ''-''
      in case ISO_DATE_FORMAT_INFO (date_key strip first) of
           None \<Rightarrow> Inl (date_format_error first)
         | Some info \<Rightarrow>
             (let flen = kend - kdot - 1
              in Inr \<lparr>dl_w0 = w0, dl_w1 = w1, dl_w2 = w2, dl_kdot = kdot, dl_kend = kend,
                      dl_kints = kints, dl_ndashes = ndashes,
                      dl_m0 = fst (snd info), dl_flen = flen,
                      dl_dtype = day_dtype_dict syntax_chk lfirst w0 w1 w2 kdot kend flen
                                   info\<rparr>))"

subsection \<open>Structured views\<close>

text \<open>
  \<^verbatim>\<open>np.dtype(dtype_dict)\<close> spans up to the furthest field end. \<^verbatim>\<open>strings.view(dtype)\<close>
  keeps the records when the sizes agree; a batch whose total byte count is a multiple of
  the new size is cut into records of the new size; anything else raises.
\<close>

definition dtype_size :: "dtype_dict \<Rightarrow> int" where
  "dtype_size dd = fold max (map (\<lambda>(k, w, off). off + w) dd) 0"

definition chunks :: "nat \<Rightarrow> string \<Rightarrow> string list" where
  "chunks n bytes = map (\<lambda>i. take n (drop (i * n) bytes)) [0..<length bytes div n]"

definition view_error :: error where
  "view_error = ValueError ''new type not compatible with array''"

definition view_as :: "dtype_dict \<Rightarrow> sarr \<Rightarrow> error + string nd" where
  "view_as dd strings =
     (let dsize = dtype_size dd
      in if dsize = int (itemsize strings) then Inr (elems strings)
         else (case elems strings of
                 Scalar r \<Rightarrow> Inl view_error
               | Array rs \<Rightarrow>
                   if 0 < dsize \<and> int (length (concat rs)) mod dsize = 0
                   then Inr (Array (chunks (nat dsize) (concat rs)))
                   else Inl view_error))"

text \<open>\<^verbatim>\<open>view[key]\<close> for a key that is in the dictionary.\<close>

definition get_field :: "dtype_dict \<Rightarrow> string \<Rightarrow> string nd \<Rightarrow> string nd" where
  "get_field dd k view =
     (case map_of dd k of
        None \<Rightarrow> nd_map (\<lambda>r. []) view
      | Some (w, off) \<Rightarrow> nd_map (field off w) view)"

text \<open>\<^verbatim>\<open>bytearray(view[key])\<close>: the raw bytes of the field in every record.\<close>

definition raw_field :: "dtype_dict \<Rightarrow> string \<Rightarrow> string nd \<Rightarrow> string" where
  "raw_field dd k view =
     (case map_of dd k of
        None \<Rightarrow> []
      | Some (w, off) \<Rightarrow> concat (map (slice off w) (nd_list view)))"

text \<open>\<^verbatim>\<open>view[key].astype('int')\<close>, and the constant the source uses when the key is absent.\<close>

definition int_field :: "dtype_dict \<Rightarrow> string \<Rightarrow> string nd \<Rightarrow> error + int nd" where
  "int_field dd k view = nd_mapE py_int (get_field dd k view)"

definition int_field_or0 :: "dtype_dict \<Rightarrow> string \<Rightarrow> string nd \<Rightarrow> error + int nd" where
  "int_field_or0 dd k view =
     (if has_key dd k then int_field dd k view else Inr (nd_map (\<lambda>r. 0) view))"

text \<open>\<^verbatim>\<open>key in dtype_dict and np.any(view[key] != literal)\<close>.\<close>

definition any_differs :: "dtype_dict \<Rightarrow> string \<Rightarrow> string nd \<Rightarrow> string \<Rightarrow> bool" where
  "any_differs dd k view lit =
     (has_key dd k \<and> (\<exists>x \<in> set (nd_list (get_field dd k view)). x \<noteq> rstrip_null lit))"

subsection \<open>\<^verbatim>\<open>day_from_iso\<close>: syntax validation\<close>

definition day_syntax_check :: "day_layout \<Rightarrow> string nd \<Rightarrow> error option" where
  "day_syntax_check L view =
     (let dd = dl_dtype L
      in if any_differs dd ''dash0'' view ''-''
         then Some (ValueError ''inconsistent dashes in ISO date'')
         else if any_differs dd ''dash1'' view ''-''
         then Some (ValueError ''inconsistent dashes in ISO date'')
         else if any_differs dd ''white0'' view (replicate (nat (dl_w0 L)) blank)
         then Some (ValueError ''inconsistent white space in ISO date'')
         else if any_differs dd ''white1'' view (replicate (nat (dl_w1 L)) blank)
         then Some (ValueError ''inconsistent white space in ISO date'')
         else if any_differs dd ''nulls'' view [nullc]
         then Some (ValueError ''inconsistent null termination in ISO date'')
         else if blank \<in> set (raw_field dd ''data'' view)
         then Some (ValueError ''invalid blank character in ISO date'')
         else if (\<exists>key \<in> set [''y'', ''d'', ''m'', ''f''].
                    has_key dd key \<and> CHR ''-'' \<in> set (raw_field dd key view))
         then Some (ValueError ''invalid negative value in ISO date'')
         else None)"

subsection \<open>\<^verbatim>\<open>day_from_iso\<close>\<close>

text \<open>Element-wise calls of the adapter on the extracted fields.\<close>

definition days_of_fields ::
  "adapter \<Rightarrow> bool \<Rightarrow> bool \<Rightarrow> int \<Rightarrow> int nd \<Rightarrow> int nd \<Rightarrow> int nd \<Rightarrow> error + int nd" where
  "days_of_fields A validate proleptic m0 y m d =
     (let conv = (\<lambda>(yv, mv, dv).
                    if m0 \<noteq> 0 then day_from_ymd A yv mv dv validate proleptic
                    else day_from_yd A yv dv validate proleptic)
      in case (y, m, d) of
           (Scalar yv, Scalar mv, Scalar dv) \<Rightarrow>
             (case conv (yv, mv, dv) of Inl e \<Rightarrow> Inl e | Inr v \<Rightarrow> Inr (Scalar v))
         | _ \<Rightarrow>
             (case list_mapE conv (zip (nd_list y) (zip (nd_list m) (nd_list d))) of
                Inl e \<Rightarrow> Inl e | Inr vs \<Rightarrow> Inr (Array vs)))"

text \<open>\<^verbatim>\<open>day + f/10.**flen\<close>, element by element: the sum is a float.\<close>

definition add_fraction :: "int \<Rightarrow> int nd \<Rightarrow> int nd \<Rightarrow> num nd" where
  "add_fraction flen day f =
     (case (day, f) of
        (Scalar dv, Scalar fv) \<Rightarrow> Scalar (PyFloat (of_int dv + of_int fv / 10 ^ nat flen))
      | _ \<Rightarrow> Array (map (\<lambda>(dv, fv). PyFloat (of_int dv + of_int fv / 10 ^ nat flen))
                      (zip (nd_list day) (nd_list f))))"

definition day_from_iso ::
  "adapter \<Rightarrow> bool \<Rightarrow> bool \<Rightarrow> bool \<Rightarrow> bool \<Rightarrow> bool option \<Rightarrow> sarr \<Rightarrow> error + num nd" where
  "day_from_iso A validate syntax_chk strip proleptic use_julian strings =
     (let proleptic = (case use_julian of None \<Rightarrow> proleptic | Some uj \<Rightarrow> \<not> uj)
      in ebind (nd_first (elems strings)) (\<lambda>first0.
         let first = rstrip_null first0
         in ebind (day_from_iso_layout syntax_chk strip (itemsize strings) first) (\<lambda>L.
            let dd = dl_dtype L
            in ebind (view_as dd strings) (\<lambda>view.
               ebind (int_field dd ''y'' view) (\<lambda>y.
               ebind (int_field dd ''d'' view) (\<lambda>d.
               ebind (int_field_or0 dd ''m'' view) (\<lambda>m.
               ebind (int_field_or0 dd ''f'' view) (\<lambda>f.
               case (if syntax_chk then day_syntax_check L view else None) of
                 Some e \<Rightarrow> Inl e
               | None \<Rightarrow>
                   ebind (days_of_fields A validate proleptic (dl_m0 L) y m d) (\<lambda>day.
                   if dl_kdot L \<noteq> 0 then Inr (add_fraction (dl_flen L) day f)
                   else Inr (nd_map PyInt day))))))))))"

subsection \<open>\<^verbatim>\<open>sec_from_iso\<close>: layout inference\<close>

record sec_layout =
  sl_w0 :: int
  sl_w1 :: int
  sl_w2 :: int
  sl_wz :: int
  sl_kend :: int
  sl_kdot :: int
  sl_kints :: int
  sl_kcolons :: "int list"
  sl_khms :: "int list"
  sl_widths :: "int list"
  sl_flen :: int
  sl_dtype :: dtype_dict

definition time_error :: "string \<Rightarrow> string \<Rightarrow> error" where
  "time_error what first = ValueError (what @ [dquote] @ first @ [dquote])"

definition too_many_colons :: "string \<Rightarrow> error" where
  "too_many_colons first =
     time_error ''unrecognized ISO time format; too many colons: '' first"

definition too_many_decimals :: "string \<Rightarrow> error" where
  "too_many_decimals first =
     time_error ''unrecognized ISO time format; too many decimals: '' first"

definition invalid_field_width :: "string \<Rightarrow> error" where
  "invalid_field_width first = time_error ''invalid field width in ISO time: '' first"

definition invalid_text_width :: "string \<Rightarrow> error" where
  "invalid_text_width first = time_error ''invalid text width in ISO time format: '' first"

text \<open>The start locations and widths of the integer fields, or the error of the two
  branches of \<^verbatim>\<open>if kcolons.size\<close>.\<close>

definition hms_fields :: "string \<Rightarrow> int \<Rightarrow> int \<Rightarrow> int list \<Rightarrow> error + int list \<times> int list" where
  "hms_fields first w0 kints kcolons =
     (if kcolons \<noteq> []
      then (let kcolons1 = (w0 - 1) # kcolons;
                khms = map (\<lambda>k. k + 1) kcolons1;
                khms1 = tl kcolons1 @ [kints];
                widths = map (\<lambda>(e, b). e - b) (zip khms1 khms)
            in if (\<exists>w \<in> set widths. w \<noteq> 2) then Inl (invalid_field_width first)
               else Inr (khms, widths))
      else (let width = kints - w0;
                fields = width div 2
            in if fields > 3 \<or> width \<noteq> fields * 2 then Inl (invalid_text_width first)
               else Inr (map (\<lambda>i. w0 + 2 * int i) [0..<nat fields],
                         replicate (nat fields) 2)))"

definition hms_keys :: "string list" where
  "hms_keys = [''h'', ''m'', ''s'']"

definition colon_fields :: "int list \<Rightarrow> dtype_dict" where
  "colon_fields kcolons =
     map (\<lambda>(i, kcolon). (''colon'' @ str_nat i, 1, kcolon))
         (zip [0..<length kcolons] kcolons)"

text \<open>Blank counts, the \<open>Z\<close> test and the end of the time text
  (\<^verbatim>\<open>w0\<close>, \<^verbatim>\<open>w1\<close>, \<^verbatim>\<open>wz\<close>, \<^verbatim>\<open>kend\<close>).\<close>

definition time_bounds :: "bool \<Rightarrow> string \<Rightarrow> error + int \<times> int \<times> int \<times> int" where
  "time_bounds strip first =
     (let lfirst = int (length first);
          w0 = leading_white strip first;
          w1 = trailing_white strip first;
          lstripped = lfirst - w0 - w1
      in ebind (py_index first (w0 + lstripped - 1)) (\<lambda>c.
         let wz = (if c = CHR ''Z'' then 1 else 0)
         in Inr (w0, w1, wz, w0 + (lstripped - wz))))"

text \<open>The colons and the decimal point (\<^verbatim>\<open>kcolons\<close>, \<^verbatim>\<open>kdot\<close>).\<close>

definition time_marks :: "string \<Rightarrow> error + int list \<times> int" where
  "time_marks first =
     (let kcolons = map int (np_where first CHR '':'')
      in if length kcolons > 2 then Inl (too_many_colons first)
         else (let kdots = map int (np_where first CHR ''.'')
               in if length kdots > 1 then Inl (too_many_decimals first)
                  else Inr (kcolons, if length kdots = 1 then hd kdots else 0)))"

definition sec_dtype_dict ::
  "bool \<Rightarrow> int \<Rightarrow> int \<Rightarrow> int \<Rightarrow> int \<Rightarrow> int \<Rightarrow> int \<Rightarrow> int \<Rightarrow> int \<Rightarrow> int list
     \<Rightarrow> int list \<Rightarrow> int list \<Rightarrow> dtype_dict" where
  "sec_dtype_dict syntax_chk lfirst w0 w1 w2 wz kdot kend flen kcolons khms widths =
     map (\<lambda>(key, w, k). (key, w, k)) (zip hms_keys (zip widths khms))
     @ (if w0 \<noteq> 0 then [(''white0'', w0, 0)] else [])
     @ colon_fields kcolons
     @ (if kdot \<noteq> 0
        then [(''dot'', 1, kdot)] @ (if flen \<noteq> 0 then [(''f'', flen, kdot + 1)] else [])
        else [])
     @ (if wz \<noteq> 0 then [(''z'', 1, kend)] else [])
     @ (if w1 \<noteq> 0 then [(''white1'', w1, kend + wz)] else [])
     @ (if w2 \<noteq> 0 then [(''nulls'', 1, lfirst)] else [])
     @ (if syntax_chk then [(''data'', kend - w0, w0)] else [])"

definition sec_from_iso_layout :: "bool \<Rightarrow> bool \<Rightarrow> nat \<Rightarrow> string \<Rightarrow> error + sec_layout" where
  "sec_from_iso_layout syntax_chk strip isize first =
     (let lfirst = int (length first);
          w2 = int isize - lfirst
      in ebind (time_bounds strip first) (\<lambda>(w0, w1, wz, kend).
         ebind (time_marks first) (\<lambda>(kcolons, kdot).
         let kints = (if kdot \<noteq> 0 then kdot else kend)
         in ebind (hms_fields first w0 kints kcolons) (\<lambda>(khms, widths).
            let flen = kend - kdot - 1
            in Inr \<lparr>sl_w0 = w0, sl_w1 = w1, sl_w2 = w2, sl_wz = wz, sl_kend = kend,
                    sl_kdot = kdot, sl_kints = kints, sl_kcolons = kcolons,
                    sl_khms = khms, sl_widths = widths, sl_flen = flen,
                    sl_dtype = sec_dtype_dict syntax_chk lfirst w0 w1 w2 wz kdot kend flen
                                 kcolons khms widths\<rparr>))))"

subsection \<open>\<^verbatim>\<open>sec_from_iso\<close>: syntax validation\<close>

definition sec_syntax_check :: "sec_layout \<Rightarrow> string nd \<Rightarrow> error option" where
  "sec_syntax_check L view =
     (let dd = sl_dtype L
      in if any_differs dd ''white0'' view (replicate (nat (sl_w0 L)) blank)
         then Some (ValueError ''inconsistent white space in ISO time'')
         else if any_differs dd ''colon0'' view '':''
         then Some (ValueError ''inconsistent colons in ISO time'')
         else if any_differs dd ''colon1'' view '':''
         then Some (ValueError ''inconsistent colons in ISO time'')
         else if any_differs dd ''dot'' view ''.''
         then Some (ValueError ''inconsistent decimal points in ISO time'')
         else if any_differs dd ''z'' view ''Z''
         then Some (ValueError (''inconsistent '' @ [dquote] @ ''Z'' @ [dquote] @ '' usage in ISO time''))
         else if any_differs dd ''white1'' view (replicate (nat (sl_w1 L)) blank)
         then Some (ValueError ''inconsistent white space in ISO time'')
         else if any_differs dd ''nulls'' view [nullc]
         then Some (ValueError ''inconsistent null termination in ISO time'')
         else if blank \<in> set (raw_field dd ''data'' view)
                 \<or> CHR ''-'' \<in> set (raw_field dd ''data'' view)
         then Some (ValueError ''invalid blank character in ISO time'')
         else None)"

subsection \<open>\<^verbatim>\<open>sec_from_iso\<close>\<close>

text \<open>
  The fraction is added to the last integer field present: \<open>s\<close>, else \<open>m\<close>, else \<open>h\<close>.
  A field without a fraction stays an integer.
\<close>

definition with_fraction :: "bool \<Rightarrow> int \<Rightarrow> int \<Rightarrow> int \<Rightarrow> num" where
  "with_fraction here flen v f =
     (if here then PyFloat (of_int v + of_int f / 10 ^ nat flen) else PyInt v)"

definition secs_of_fields ::
  "adapter \<Rightarrow> bool \<Rightarrow> bool \<Rightarrow> dtype_dict \<Rightarrow> int \<Rightarrow> int nd \<Rightarrow> int nd \<Rightarrow> int nd \<Rightarrow> int nd
     \<Rightarrow> error + num nd" where
  "secs_of_fields A validate leapsecs dd flen h m s f =
     (let has_f = has_key dd ''f'';
          on_s = (has_f \<and> has_key dd ''s'');
          on_m = (has_f \<and> \<not> has_key dd ''s'' \<and> has_key dd ''m'');
          on_h = (has_f \<and> \<not> has_key dd ''s'' \<and> \<not> has_key dd ''m'');
          conv = (\<lambda>(hv, mv, sv, fv).
                    sec_from_hms A (with_fraction on_h flen hv fv) (with_fraction on_m flen mv fv)
                                   (with_fraction on_s flen sv fv) validate leapsecs)
      in case (h, m, s, f) of
           (Scalar hv, Scalar mv, Scalar sv, Scalar fv) \<Rightarrow>
             (case conv (hv, mv, sv, fv) of Inl e \<Rightarrow> Inl e | Inr v \<Rightarrow> Inr (Scalar v))
         | _ \<Rightarrow>
             (case list_mapE conv
                     (zip (nd_list h) (zip (nd_list m) (zip (nd_list s) (nd_list f)))) of
                Inl e \<Rightarrow> Inl e | Inr vs \<Rightarrow> Inr (Array vs)))"

definition sec_from_iso ::
  "adapter \<Rightarrow> bool \<Rightarrow> bool \<Rightarrow> bool \<Rightarrow> bool \<Rightarrow> sarr \<Rightarrow> error + num nd" where
  "sec_from_iso A validate leapsecs strip syntax_chk strings =
     ebind (nd_first (elems strings)) (\<lambda>first0.
     let first = rstrip_null first0
     in ebind (sec_from_iso_layout syntax_chk strip (itemsize strings) first) (\<lambda>L.
        let dd = sl_dtype L
        in ebind (view_as dd strings) (\<lambda>view.
           if \<not> has_key dd ''h'' then Inl (ValueError ''no field of name h'')
           else
           ebind (int_field dd ''h'' view) (\<lambda>h.
           ebind (int_field_or0 dd ''m'' view) (\<lambda>m.
           ebind (int_field_or0 dd ''s'' view) (\<lambda>s.
           ebind (int_field_or0 dd ''f'' view) (\<lambda>f.
           case (if syntax_chk then sec_syntax_check L view else None) of
             Some e \<Rightarrow> Inl e
           | None \<Rightarrow> secs_of_fields A validate leapsecs dd (sl_flen L) h m s f)))))))"

subsection \<open>\<^verbatim>\<open>day_sec_from_iso\<close>\<close>

text \<open>
  The separator search: a \<open>T\<close> anywhere, else the first blank after the leading
  blanks unless it is where the trailing blanks start. The result is the separator
  character and its index, \<open>-1\<close> when there is none.
\<close>

definition find_separator :: "string \<Rightarrow> char \<times> int" where
  "find_separator first =
     (let lfirst = int (length first);
          isep = py_find first CHR ''T'' 0
      in if isep = -1
         then (case count_white first of (w0, w1) \<Rightarrow>
                 (let isep = py_find first blank w0
                  in if isep = lfirst - int w1 then (blank, -1) else (blank, isep)))
         else (CHR ''T'', isep))"

text \<open>
  A field of the view handed on as a batch of its own: its item size is the field width.
\<close>

definition sub_array :: "int \<Rightarrow> int \<Rightarrow> string nd \<Rightarrow> sarr" where
  "sub_array off w view = \<lparr>itemsize = nat w, elems = nd_map (slice off w) view\<rparr>"

text \<open>
  \<^verbatim>\<open>np.any(sec >= seconds_on_day(day))\<close>, element by element; a scalar is broadcast
  against a batch. The day of a fractional day number is its integer part.
\<close>

definition day_part :: "num \<Rightarrow> int" where
  "day_part d = \<lfloor>to_rat d\<rfloor>"

definition any_sec_overflow :: "adapter \<Rightarrow> num nd \<Rightarrow> num nd \<Rightarrow> bool" where
  "any_sec_overflow A day sec =
     (case (day, sec) of
        (Scalar d, _) \<Rightarrow>
          (\<exists>s \<in> set (nd_list sec). to_rat s \<ge> of_int (seconds_on_day A (day_part d)))
      | (_, Scalar s) \<Rightarrow>
          (\<exists>d \<in> set (nd_list day). to_rat s \<ge> of_int (seconds_on_day A (day_part d)))
      | (Array ds, Array ss) \<Rightarrow>
          (\<exists>(d, s) \<in> set (zip ds ss). to_rat s \<ge> of_int (seconds_on_day A (day_part d))))"

definition day_sec_from_iso ::
  "adapter \<Rightarrow> bool \<Rightarrow> bool \<Rightarrow> bool \<Rightarrow> bool \<Rightarrow> bool option \<Rightarrow> sarr
     \<Rightarrow> error + num nd \<times> num nd" where
  "day_sec_from_iso A validate syntax_chk strip proleptic use_julian strings =
     (let proleptic = (case use_julian of None \<Rightarrow> proleptic | Some uj \<Rightarrow> \<not> uj)
      in ebind (nd_first (elems strings)) (\<lambda>first0.
         let first = rstrip_null first0;
             lfirst = int (length first);
             (csep, isep) = find_separator first
         in if isep = -1
            then ebind (day_from_iso A validate False strip False None strings)
                   (\<lambda>day. Inr (day, Scalar (PyInt 0)))
            else
              (let dtype_dict = [(''date'', isep, 0),
                                 (''time'', lfirst - isep - 1, isep + 1),
                                 (''sep'', 1, isep)]
               in ebind (view_as dtype_dict strings) (\<lambda>view.
                  ebind (day_from_iso A validate syntax_chk strip proleptic None
                           (sub_array 0 isep view)) (\<lambda>day.
                  ebind (sec_from_iso A validate True strip syntax_chk
                           (sub_array (isep + 1) (lfirst - isep - 1) view)) (\<lambda>sec.
                  if syntax_chk \<and> any_differs dtype_dict ''sep'' view [csep]
                  then Inl (ValueError ''invalid ISO date-time punctuation'')
                  else if validate \<and> any_sec_overflow A day sec
                  then Inl (ValueError ''seconds value is outside allowed range'')
                  else Inr (day, sec)))))))"

section \<open>Encoding: \<^verbatim>\<open>formatter.py\<close>\<close>

subsection \<open>Numbers\<close>

text \<open>
  Modelled from the spec: the helpers \<^verbatim>\<open>_int\<close>, \<^verbatim>\<open>_float\<close>, \<^verbatim>\<open>_number\<close> and
  \<^verbatim>\<open>_is_float\<close> of \<^verbatim>\<open>julian.utils\<close>, which the formatter imports and which are not
  under the source tree. Section 3 of the specification has a day number with an exact
  integer part and a fraction added to it, so \<^verbatim>\<open>_int\<close> is the floor; \<^verbatim>\<open>_float\<close> and
  \<^verbatim>\<open>_number\<close> keep the value, which is already exact here; a batch is floating-point
  when one of its elements is.
\<close>

definition utils_int :: "num \<Rightarrow> int" where
  "utils_int v = \<lfloor>to_rat v\<rfloor>"

fun is_PyFloat :: "num \<Rightarrow> bool" where
  "is_PyFloat (PyFloat r) = True"
| "is_PyFloat (PyInt i) = False"

definition utils_is_float :: "num nd \<Rightarrow> bool" where
  "utils_is_float x = list_ex is_PyFloat (nd_list x)"

text \<open>Python's \<^verbatim>\<open>int()\<close> on a float drops the fraction, toward zero.\<close>

definition py_trunc :: "num \<Rightarrow> int" where
  "py_trunc v = (if to_rat v < 0 then \<lceil>to_rat v\<rceil> else \<lfloor>to_rat v\<rfloor>)"

text \<open>
  \<^verbatim>\<open>((x * scale + 0.5)//1 + 0.1)/scale\<close> with \<^verbatim>\<open>scale = 10**digits\<close>, the expression
  that the three encoders share.
\<close>

definition round_bias :: "nat \<Rightarrow> rat \<Rightarrow> rat" where
  "round_bias digits x =
     (let scale = 10 ^ digits
      in (of_int \<lfloor>x * scale + 1 / 2\<rfloor> + 1 / 10) / scale)"

text \<open>
  \<^verbatim>\<open>'{n:0wd}'.format(n=n)\<close> and \<^verbatim>\<open>'%0wd' % n\<close>: at least \<open>w\<close> characters, zeros
  after the sign.
\<close>

definition zfill :: "nat \<Rightarrow> string \<Rightarrow> string" where
  "zfill w s = replicate (w - length s) CHR ''0'' @ s"

definition fmt_d :: "nat \<Rightarrow> int \<Rightarrow> string" where
  "fmt_d w n =
     (if n < 0 then CHR ''-'' # zfill (w - 1) (str_nat (nat (- n)))
      else zfill w (str_nat (nat n)))"

text \<open>
  The lookup tables \<^verbatim>\<open>DIGITS1\<close>, \<^verbatim>\<open>DIGITS2\<close>, \<^verbatim>\<open>DIGITS3\<close> (and their byte
  versions, which hold the same characters), indexed as NumPy indexes an array: a
  negative index counts from the end, an index outside the table raises.
\<close>

definition table_index :: "nat \<Rightarrow> nat \<Rightarrow> int \<Rightarrow> error + string" where
  "table_index n w i =
     (if - int n \<le> i \<and> i < int n
      then Inr (fmt_d w (if i < 0 then i + int n else i))
      else Inl (IndexError ''index is out of bounds for axis 0''))"

definition DIGITS1 :: "int \<Rightarrow> error + string" where
  "DIGITS1 = table_index 10 1"

definition DIGITS2 :: "int \<Rightarrow> error + string" where
  "DIGITS2 = table_index 100 2"

definition DIGITS3 :: "int \<Rightarrow> error + string" where
  "DIGITS3 = table_index 367 3"

subsection \<open>Buffers and record fields\<close>

text \<open>
  An output array of kind \<^verbatim>\<open>U\<close> or \<^verbatim>\<open>S\<close>: one-dimensional, every cell exactly
  \<open>bchars\<close> characters, unused positions null. The item size of the source is
  \<open>w * bchars\<close> bytes with \<open>w = 4\<close> for \<^verbatim>\<open>U\<close> and \<open>1\<close> for \<^verbatim>\<open>S\<close>; widths and offsets
  are kept in characters, the factor \<open>w\<close> dropped on both sides of every comparison.
  A result is a string, a byte string or an array.
\<close>

record buffer =
  bkind :: string
  bchars :: nat
  bcells :: "string list"

datatype formatted = Str string | Bytes string | Arr buffer

type_synonym fields = "(string \<times> nat \<times> nat) list"

text \<open>\<^verbatim>\<open>np.shape\<close>: \<open>None\<close> for a scalar, the length for a batch.\<close>

fun nd_shape :: "'a nd \<Rightarrow> nat option" where
  "nd_shape (Scalar x) = None"
| "nd_shape (Array xs) = Some (length xs)"

text \<open>A value assigned to \<open>n\<close> cells: a scalar goes to every one of them.\<close>

fun bcast :: "nat \<Rightarrow> 'a nd \<Rightarrow> 'a list" where
  "bcast n (Scalar x) = replicate n x"
| "bcast n (Array xs) = xs"

text \<open>
  Assigning a string to a field of width \<open>w\<close> at offset \<open>off\<close> of a cell: the string is
  cut or null-padded to the width. \<^verbatim>\<open>view[key] = vals\<close> does so cell by cell, and the
  source guards the optional keys by \<^verbatim>\<open>key in dtype_dict\<close>.
\<close>

definition set_field :: "nat \<Rightarrow> nat \<Rightarrow> string \<Rightarrow> string \<Rightarrow> string" where
  "set_field off w v cell = take off cell @ take w (v @ replicate w nullc) @ drop (off + w) cell"

definition put :: "fields \<Rightarrow> string \<Rightarrow> string list \<Rightarrow> string list \<Rightarrow> string list" where
  "put dt key vals view =
     (case map_of dt key of
        None \<Rightarrow> view
      | Some (w, off) \<Rightarrow> map (\<lambda>(v, cell). set_field off w v cell) (zip vals view))"

definition in_fields :: "fields \<Rightarrow> string \<Rightarrow> bool" where
  "in_fields dt key = (map_of dt key \<noteq> None)"

text \<open>
  The checks of \<^verbatim>\<open>kind\<close> and of the buffer's shape that open each encoder; \<open>what\<close>
  is \<^verbatim>\<open>date\<close> or \<^verbatim>\<open>time\<close> in the message. With one axis the comparison of the
  leading axes is between two empty tuples. The result is the kind in force.
\<close>

definition quoted :: "string \<Rightarrow> string" where
  "quoted s = [dquote] @ s @ [dquote]"

definition check_buffer :: "string \<Rightarrow> string \<Rightarrow> nat option \<Rightarrow> buffer option \<Rightarrow> error + string" where
  "check_buffer what kind shape buffer =
     (case buffer of
        None \<Rightarrow>
          if kind \<noteq> ''U'' \<and> kind \<noteq> ''S''
          then Inl (ValueError (''invalid kind, must be '' @ quoted ''U'' @ '' or '' @ quoted ''S''))
          else Inr kind
      | Some b \<Rightarrow>
          if bkind b \<noteq> ''U'' \<and> bkind b \<noteq> ''S''
          then Inl (ValueError (''invalid buffer; kind must be '' @ quoted ''U'' @ '' or ''
                                  @ quoted ''S''))
          else (case shape of
                  None \<Rightarrow> Inr (bkind b)
                | Some k \<Rightarrow>
                    if length (bcells b) < k
                    then Inl (ValueError (''buffer shape is too small for the '' @ what
                                            @ '' array''))
                    else Inr (bkind b)))"

text \<open>
  \<^verbatim>\<open>np.empty\<close> when there is no buffer, else the item-size check; then
  \<^verbatim>\<open>buffer.fill(null)\<close>, which the source runs on either. When the buffer is wider than
  the record the source adds a field \<^verbatim>\<open>extra\<close> for the rest, which nothing writes.
\<close>

definition fill_null :: "buffer \<Rightarrow> buffer" where
  "fill_null b = b\<lparr>bcells := replicate (length (bcells b)) (replicate (bchars b) nullc)\<rparr>"

definition open_buffer :: "string \<Rightarrow> string \<Rightarrow> nat \<Rightarrow> nat option \<Rightarrow> buffer option \<Rightarrow> error + buffer" where
  "open_buffer what kind lstring shape buffer =
     (case buffer of
        None \<Rightarrow>
          Inr (fill_null \<lparr>bkind = kind, bchars = lstring,
                          bcells = replicate (case shape of None \<Rightarrow> 1 | Some k \<Rightarrow> k) []\<rparr>)
      | Some b \<Rightarrow>
          if bchars b < lstring
          then Inl (ValueError (''buffer itemsize is too small for the '' @ what))
          else Inr (fill_null b))"

definition with_extra :: "nat \<Rightarrow> buffer \<Rightarrow> fields \<Rightarrow> fields" where
  "with_extra lstring b dt =
     (if lstring < bchars b then dt @ [(''extra'', bchars b - lstring, lstring)] else dt)"

text \<open>\<^verbatim>\<open>view[..., :shape[-1]]\<close>: the cells that are written, and the rest.\<close>

definition view_cells :: "nat option \<Rightarrow> buffer \<Rightarrow> string list" where
  "view_cells shape b = (case shape of None \<Rightarrow> bcells b | Some k \<Rightarrow> take k (bcells b))"

definition close_view :: "nat option \<Rightarrow> buffer \<Rightarrow> string list \<Rightarrow> buffer" where
  "close_view shape b view =
     b\<lparr>bcells := (case shape of None \<Rightarrow> view | Some k \<Rightarrow> view @ drop k (bcells b))\<rparr>"

text \<open>
  The loop that writes the fractional digits, one field \<^verbatim>\<open>f\<close>\<open>i\<close> per digit:
  \<^verbatim>\<open>frac *= 10; f = (frac // 1).astype('int'); frac -= f; view['f' + str(i)] = vals1[f]\<close>.
\<close>

fun frac_loop :: "fields \<Rightarrow> nat \<Rightarrow> nat \<Rightarrow> rat list \<Rightarrow> string list \<Rightarrow> error + string list" where
  "frac_loop dt i 0 fracs view = Inr view"
| "frac_loop dt i (Suc n) fracs view =
     (let frac10 = map (\<lambda>x. x * 10) fracs;
          f = map (\<lambda>x. \<lfloor>x\<rfloor>) frac10;
          fracs' = map (\<lambda>x. x - of_int \<lfloor>x\<rfloor>) frac10
      in ebind (list_mapE DIGITS1 f) (\<lambda>vals.
         frac_loop dt (Suc i) n fracs' (put dt (''f'' @ str_nat i) vals view)))"

definition as_text :: "string \<Rightarrow> string \<Rightarrow> formatted" where
  "as_text kind result = (if kind = ''U'' then Str result else Bytes result)"

subsection \<open>\<^verbatim>\<open>format_day\<close>\<close>

text \<open>
  The loop over \<^verbatim>\<open>enumerate(order)\<close> builds the format string and the record layout
  together. \<open>day_layout\<close> is its layout part: the fields and the record length
  \<^verbatim>\<open>lstring\<close>.
\<close>

definition day_field_step ::
  "nat \<Rightarrow> int \<Rightarrow> nat \<Rightarrow> bool \<Rightarrow> nat \<Rightarrow> nat \<times> char \<Rightarrow> fields \<times> nat \<Rightarrow> fields \<times> nat" where
  "day_field_step ldash ydigits dlen has_dot ddigits = (\<lambda>(field, c) (dt, lstring).
     let (dt, lstring) =
           (if field > 0 \<and> ldash \<noteq> 0
            then (dt @ [(''dash'' @ str_nat field, ldash, lstring)], lstring + ldash)
            else (dt, lstring))
     in if c = CHR ''Y''
        then (let (dt, lstring) =
                    (if ydigits = 4 then (dt @ [(''y12'', 2, lstring)], lstring + 2)
                     else (dt, lstring))
              in (dt @ [(''y34'', 2, lstring)], lstring + 2))
        else if c = CHR ''M''
        then (dt @ [(''m'', 2, lstring)], lstring + 2)
        else (let (dt, lstring) = (dt @ [(''d'', dlen, lstring)], lstring + dlen)
              in if has_dot
                 then (let (dt, lstring) = (dt @ [(''dot'', 1, lstring)], lstring + 1)
                       in (dt @ map (\<lambda>i. (''f'' @ str_nat i, 1, lstring + i)) [0..<ddigits],
                           lstring + ddigits))
                 else (dt, lstring)))"

definition day_dlen :: "string \<Rightarrow> nat" where
  "day_dlen order = (if length order = 2 then 3 else 2)"

definition day_layout :: "string \<Rightarrow> int \<Rightarrow> string \<Rightarrow> bool \<Rightarrow> nat \<Rightarrow> fields \<times> nat" where
  "day_layout order ydigits dash has_dot ddigits =
     fold (day_field_step (length dash) ydigits (day_dlen order) has_dot ddigits)
          (enumerate 0 order) ([], 0)"

text \<open>
  The format string applied to one date, for the scalar result. The dash is escaped in
  the format string and comes out as it is.
\<close>

definition day_text ::
  "string \<Rightarrow> int \<Rightarrow> string \<Rightarrow> bool \<Rightarrow> nat \<Rightarrow> int \<times> int \<times> int \<Rightarrow> rat \<Rightarrow> string" where
  "day_text order ydigits dash has_dot ddigits = (\<lambda>(y, m, d) fracs.
     let y = (if ydigits = 2 then y mod 100 else y);
         f = (if has_dot \<and> ddigits > 0 then \<lfloor>fracs * 10 ^ ddigits\<rfloor> else 0)
     in concat (map (\<lambda>(field, c).
                  (if field > 0 \<and> dash \<noteq> [] then dash else [])
                  @ (if c = CHR ''Y'' then fmt_d (nat ydigits) y
                     else if c = CHR ''M'' then fmt_d 2 m
                     else fmt_d (day_dlen order) d
                          @ (if has_dot
                             then ''.'' @ (if ddigits > 0 then fmt_d ddigits f else [])
                             else [])))
                (enumerate 0 order)))"

text \<open>
  The integer day and the fraction of one element: with a decimal point the biased
  rounding comes first.
\<close>

definition split_day :: "bool \<Rightarrow> nat \<Rightarrow> num \<Rightarrow> int \<times> rat" where
  "split_day has_dot ddigits v =
     (if has_dot
      then (let day = round_bias ddigits (to_rat v);
                int_day = \<lfloor>day\<rfloor>
            in (int_day, day - of_int int_day))
      else (utils_int v, 0))"

definition ymd_of :: "adapter \<Rightarrow> string \<Rightarrow> bool \<Rightarrow> int \<Rightarrow> int \<times> int \<times> int" where
  "ymd_of A order proleptic day =
     (if length order = 3 then ymd_from_day A day proleptic
      else (case yd_from_day A day proleptic of (y, d) \<Rightarrow> (y, 0, d)))"

text \<open>The field assignments into the view, in the order of the source.\<close>

definition day_write ::
  "fields \<Rightarrow> string \<Rightarrow> string \<Rightarrow> bool \<Rightarrow> nat \<Rightarrow> (int \<times> int \<times> int) list \<Rightarrow> rat list
     \<Rightarrow> string list \<Rightarrow> error + string list" where
  "day_write dt order dash has_dot ddigits ymd fracs view =
     (let n = length view;
          ys = map fst ymd;
          ms = map (\<lambda>(y, m, d). m) ymd;
          ds = map (\<lambda>(y, m, d). d) ymd
      in ebind (if in_fields dt ''y12'' then list_mapE DIGITS2 (map (\<lambda>y. y div 100) ys)
                else Inr []) (\<lambda>y12.
         let view = put dt ''y12'' y12 view
         in ebind (list_mapE DIGITS2 (map (\<lambda>y. y mod 100) ys)) (\<lambda>y34.
            let view = put dt ''y34'' y34 view
            in ebind (if length order = 3 then list_mapE DIGITS2 ms else Inr []) (\<lambda>mm.
               let view = (if length order = 3 then put dt ''m'' mm view else view)
               in ebind (list_mapE (if length order = 3 then DIGITS2 else DIGITS3) ds) (\<lambda>dd.
                  let view = put dt ''d'' dd view;
                      view = put dt ''dash1'' (replicate n dash) view;
                      view = put dt ''dash2'' (replicate n dash) view;
                      view = put dt ''dot'' (replicate n ''.'') view
                  in if has_dot then frac_loop dt 0 ddigits fracs view else Inr view)))))"

definition py_repr :: "string \<Rightarrow> string" where
  "py_repr s = [CHR 0x27] @ s @ [CHR 0x27]"

definition format_day ::
  "adapter \<Rightarrow> num nd \<Rightarrow> string \<Rightarrow> int \<Rightarrow> string \<Rightarrow> int option \<Rightarrow> bool \<Rightarrow> buffer option
     \<Rightarrow> string \<Rightarrow> error + formatted" where
  "format_day A day order ydigits dash ddigits proleptic buffer kind =
     (if order \<notin> set [''YMD'', ''MDY'', ''DMY'', ''YD'', ''DY'']
      then Inl (ValueError (''unrecognized date format order: '' @ py_repr order))
      else if ydigits \<noteq> 2 \<and> ydigits \<noteq> 4
      then Inl (ValueError ''ydigits must equal 2 or 4'')
      else
        (let has_dot = (utils_is_float day
                        \<and> (case ddigits of None \<Rightarrow> False | Some n \<Rightarrow> n \<ge> 0));
             nd = (case ddigits of None \<Rightarrow> 0 | Some n \<Rightarrow> nat n);
             parts = nd_map (split_day has_dot nd) day;
             shape = nd_shape day
         in ebind (check_buffer ''date'' kind shape buffer) (\<lambda>kind.
            let (dt, lstring) = day_layout order ydigits dash has_dot nd;
                ymd = nd_map (\<lambda>(int_day, fracs). ymd_of A order proleptic int_day) parts;
                fracs = nd_map snd parts
            in case (buffer, ymd, fracs) of
                 (None, Scalar ymd0, Scalar frac0) \<Rightarrow>
                   Inr (as_text kind (day_text order ydigits dash has_dot nd ymd0 frac0))
               | _ \<Rightarrow>
                   ebind (open_buffer ''date format'' kind lstring shape buffer) (\<lambda>b.
                   let dt = with_extra lstring b dt;
                       view = view_cells shape b;
                       n = length view
                   in ebind (day_write dt order dash has_dot nd (bcast n ymd) (bcast n fracs)
                               view) (\<lambda>view.
                      Inr (Arr (close_view shape b view)))))))"

subsection \<open>\<^verbatim>\<open>format_sec\<close>\<close>

definition sec_layout_fields :: "string \<Rightarrow> bool \<Rightarrow> nat \<Rightarrow> string \<Rightarrow> fields \<times> nat" where
  "sec_layout_fields colon has_dot digits suffix =
     (let lcolon = length colon;
          dt = [(''h'', 2, 0), (''m'', 2, 2 + lcolon), (''s'', 2, 4 + 2 * lcolon)];
          dt = (if lcolon \<noteq> 0
                then dt @ [(''colon1'', lcolon, 2), (''colon2'', lcolon, 4 + lcolon)]
                else dt);
          lstring = 6 + 2 * lcolon;
          (dt, lstring) =
            (if has_dot
             then (dt @ [(''dot'', 1, lstring)]
                      @ map (\<lambda>i. (''f'' @ str_nat i, 1, lstring + 1 + i)) [0..<digits],
                   lstring + 1 + digits)
             else (dt, lstring))
      in if suffix \<noteq> []
         then (dt @ [(''z'', length suffix, lstring)], lstring + length suffix)
         else (dt, lstring))"

text \<open>
  The format string \<^verbatim>\<open>'%02d' + colon + '%02d' + colon + '%02d'\<close>, then the point and
  the fraction, then the suffix, applied with \<^verbatim>\<open>%\<close>. The seconds are \<^verbatim>\<open>int(s)\<close>.
\<close>

definition sec_text ::
  "string \<Rightarrow> bool \<Rightarrow> nat \<Rightarrow> string \<Rightarrow> int \<times> int \<times> num \<Rightarrow> rat \<Rightarrow> string" where
  "sec_text colon has_dot digits suffix = (\<lambda>(h, m, s) fracs.
     fmt_d 2 h @ colon @ fmt_d 2 m @ colon @ fmt_d 2 (py_trunc s)
     @ (if has_dot
        then ''.'' @ (if digits > 0 then fmt_d digits \<lfloor>fracs * 10 ^ digits\<rfloor> else [])
        else [])
     @ suffix)"

text \<open>
  The hours, minutes and seconds come from \<^verbatim>\<open>hms_from_sec\<close> of the value as given.
  With a decimal point the value is then rounded with the bias and split into
  \<^verbatim>\<open>int_sec\<close> and \<^verbatim>\<open>frac\<close>, of which only \<^verbatim>\<open>frac\<close> is read afterwards; without
  one the seconds are cut to an integer.
\<close>

definition split_sec :: "bool \<Rightarrow> nat \<Rightarrow> num \<Rightarrow> int \<times> int \<times> num \<Rightarrow> (int \<times> int \<times> num) \<times> rat" where
  "split_sec has_dot digits sec = (\<lambda>(h, m, s).
     if has_dot
     then (let sec = round_bias digits (to_rat sec);
               int_sec = \<lfloor>sec\<rfloor>
           in ((h, m, s), sec - of_int int_sec))
     else ((h, m, PyInt (utils_int s)), 0))"

definition sec_write ::
  "fields \<Rightarrow> string \<Rightarrow> string \<Rightarrow> bool \<Rightarrow> nat \<Rightarrow> (int \<times> int \<times> num) list \<Rightarrow> rat list
     \<Rightarrow> string list \<Rightarrow> error + string list" where
  "sec_write dt colon suffix has_dot digits hms fracs view =
     (let n = length view;
          int_s = map (\<lambda>(h, m, s). utils_int s) hms
      in ebind (list_mapE DIGITS2 (map fst hms)) (\<lambda>hh.
         let view = put dt ''h'' hh view
         in ebind (list_mapE DIGITS2 (map (\<lambda>(h, m, s). m) hms)) (\<lambda>mm.
            let view = put dt ''m'' mm view
            in ebind (list_mapE DIGITS2 int_s) (\<lambda>ss.
               let view = put dt ''s'' ss view;
                   view = (if colon \<noteq> []
                           then put dt ''colon2'' (replicate n colon)
                                  (put dt ''colon1'' (replicate n colon) view)
                           else view);
                   view = put dt ''dot'' (replicate n ''.'') view;
                   view = put dt ''z'' (replicate n suffix) view
               in if has_dot then frac_loop dt 0 digits fracs view else Inr view))))"

text \<open>
  A colon or suffix with a percent sign in it would be read by \<^verbatim>\<open>%\<close> as a conversion;
  the scalar result is modelled for separators without one and is an error otherwise.
\<close>

definition format_sec ::
  "adapter \<Rightarrow> num nd \<Rightarrow> int option \<Rightarrow> string \<Rightarrow> string \<Rightarrow> buffer option \<Rightarrow> string
     \<Rightarrow> error + formatted" where
  "format_sec A sec digits colon suffix buffer kind =
     (let shape = nd_shape sec
      in ebind (nd_mapE (hms_from_sec A) sec) (\<lambda>hms.
         let has_dot = (case digits of None \<Rightarrow> False | Some n \<Rightarrow> n \<ge> 0);
             nd = (case digits of None \<Rightarrow> 0 | Some n \<Rightarrow> nat n);
             parts = (case (sec, hms) of
                        (Scalar v, Scalar x) \<Rightarrow> Scalar (split_sec has_dot nd v x)
                      | _ \<Rightarrow> Array (map (\<lambda>(v, x). split_sec has_dot nd v x)
                                      (zip (nd_list sec) (nd_list hms))))
         in ebind (check_buffer ''time'' kind shape buffer) (\<lambda>kind.
            let (dt, lstring) = sec_layout_fields colon has_dot nd suffix;
                hms = nd_map fst parts;
                fracs = nd_map snd parts
            in case (buffer, hms, fracs) of
                 (None, Scalar hms0, Scalar frac0) \<Rightarrow>
                   if CHR ''%'' \<in> set (colon @ suffix)
                   then Inl (ValueError ''unsupported format character'')
                   else Inr (as_text kind (sec_text colon has_dot nd suffix hms0 frac0))
               | _ \<Rightarrow>
                   ebind (open_buffer ''ISO time format'' kind lstring shape buffer) (\<lambda>b.
                   let dt = with_extra lstring b dt;
                       view = view_cells shape b;
                       n = length view
                   in ebind (sec_write dt colon suffix has_dot nd (bcast n hms) (bcast n fracs)
                               view) (\<lambda>view.
                      Inr (Arr (close_view shape b view)))))))"

subsection \<open>\<^verbatim>\<open>format_day_sec\<close>\<close>

text \<open>
  \<^verbatim>\<open>np.broadcast_arrays(day, sec)\<close>: the common shape and the two batches as lists of
  that length (one element for a scalar).
\<close>

definition broadcast_arrays ::
  "'a nd \<Rightarrow> 'b nd \<Rightarrow> error + nat option \<times> 'a list \<times> 'b list" where
  "broadcast_arrays a b =
     (case (a, b) of
        (Scalar x, Scalar y) \<Rightarrow> Inr (None, [x], [y])
      | (Scalar x, Array ys) \<Rightarrow> Inr (Some (length ys), replicate (length ys) x, ys)
      | (Array xs, Scalar y) \<Rightarrow> Inr (Some (length xs), xs, replicate (length xs) y)
      | (Array xs, Array ys) \<Rightarrow>
          if length xs = length ys then Inr (Some (length xs), xs, ys)
          else if length xs = 1 then Inr (Some (length ys), replicate (length ys) (hd xs), ys)
          else if length ys = 1 then Inr (Some (length xs), xs, replicate (length xs) (hd ys))
          else Inl (ValueError
                 ''shape mismatch: objects cannot be broadcast to a single shape''))"

text \<open>
  The rounding of the seconds and the step over the end of the day, for one element.
  The source computes \<^verbatim>\<open>crossovers = (sec >= secs_on_day)\<close> on the whole batch and
  updates the elements it selects; for a scalar it tests the one value.
\<close>

definition day_sec_digits :: "int option \<Rightarrow> nat" where
  "day_sec_digits digits = (case digits of None \<Rightarrow> 0 | Some n \<Rightarrow> nat (max n 0))"

definition rollover :: "adapter \<Rightarrow> nat \<Rightarrow> int \<times> num \<Rightarrow> int \<times> rat" where
  "rollover A ndigits = (\<lambda>(day, sec).
     let sec = round_bias ndigits (to_rat sec);
         secs_on_day = seconds_on_day A day;
         crossovers = (sec \<ge> of_int secs_on_day)
     in if crossovers then (day + 1, sec - of_int secs_on_day) else (day, sec))"

fun text_of :: "formatted \<Rightarrow> string" where
  "text_of (Str s) = s"
| "text_of (Bytes s) = s"
| "text_of (Arr b) = concat (bcells b)"

text \<open>
  A field of the view handed to an encoder as its buffer, and the cells it returns put
  back in place: \<^verbatim>\<open>view['date']\<close> shares its storage with the view.
\<close>

definition field_buffer :: "string \<Rightarrow> nat \<Rightarrow> nat \<Rightarrow> string list \<Rightarrow> buffer" where
  "field_buffer kind off w view =
     \<lparr>bkind = kind, bchars = w, bcells = map (\<lambda>cell. take w (drop off cell)) view\<rparr>"

definition put_back :: "nat \<Rightarrow> nat \<Rightarrow> formatted \<Rightarrow> string list \<Rightarrow> string list" where
  "put_back off w r view =
     (case r of
        Arr b \<Rightarrow> map (\<lambda>(v, cell). set_field off w v cell) (zip (bcells b) view)
      | _ \<Rightarrow> view)"

text \<open>
  The part of \<^verbatim>\<open>format_day_sec\<close> after the step over the end of the day: the first
  element is formatted to fix the widths, then the batch is written field by field.
  \<open>rolled\<close> holds the days and seconds after the step.
\<close>

definition day_sec_compose ::
  "adapter \<Rightarrow> nat option \<Rightarrow> (int \<times> rat) list \<Rightarrow> string \<Rightarrow> int \<Rightarrow> string \<Rightarrow> string \<Rightarrow> string
     \<Rightarrow> int option \<Rightarrow> string \<Rightarrow> bool \<Rightarrow> buffer option \<Rightarrow> string \<Rightarrow> error + formatted" where
  "day_sec_compose A shape rolled order ydigits dash sep colon digits suffix proleptic buffer
       kind =
     (let ymd_order = filter (\<lambda>c. c \<noteq> CHR ''T'') order;
          days = map fst rolled;
          secs = map snd rolled
      in ebind (nd_first (Array rolled)) (\<lambda>(day0, sec0).
         ebind (format_day A (Scalar (PyInt day0)) ymd_order ydigits dash None proleptic
                  None ''U'') (\<lambda>day_formatted.
         ebind (format_sec A (Scalar (PyFloat sec0)) digits colon suffix None ''U'')
           (\<lambda>sec_formatted.
         let day_formatted = text_of day_formatted;
             sec_formatted = text_of sec_formatted;
             result0 = (if hd order = CHR ''T''
                        then sec_formatted @ sep @ day_formatted
                        else day_formatted @ sep @ sec_formatted)
         in if shape = None \<and> buffer = None then Inr (as_text kind result0)
            else
              (let ltime = length sec_formatted;
                   ldate = length day_formatted;
                   lsep = length sep;
                   lstring = ltime + ldate + lsep;
                   (tm_off, sp_off, dt_off) =
                     (if hd order = CHR ''T'' then (0, ltime, ltime + lsep)
                      else (ldate + lsep, ldate, 0))
               in ebind (open_buffer ''date/time format'' kind lstring shape buffer) (\<lambda>b.
                  let view = view_cells shape b;
                      view = (if lsep \<noteq> 0
                              then map (set_field sp_off lsep sep) view else view);
                      day_arg = (case shape of
                                   None \<Rightarrow> Scalar (PyInt day0)
                                 | Some k \<Rightarrow> Array (map PyInt days));
                      sec_arg = (case shape of
                                   None \<Rightarrow> Scalar (PyFloat sec0)
                                 | Some k \<Rightarrow> Array (map PyFloat secs))
                  in ebind (format_day A day_arg ymd_order ydigits dash None proleptic
                              (Some (field_buffer (bkind b) dt_off ldate view)) kind)
                       (\<lambda>r.
                     let view = put_back dt_off ldate r view
                     in ebind (format_sec A sec_arg digits colon suffix
                                 (Some (field_buffer (bkind b) tm_off ltime view)) kind)
                          (\<lambda>r.
                        let view = put_back tm_off ltime r view
                        in Inr (Arr (close_view shape b view))))))))))"

definition format_day_sec ::
  "adapter \<Rightarrow> num nd \<Rightarrow> num nd \<Rightarrow> string \<Rightarrow> int \<Rightarrow> string \<Rightarrow> string \<Rightarrow> string \<Rightarrow> int option
     \<Rightarrow> string \<Rightarrow> bool \<Rightarrow> buffer option \<Rightarrow> string \<Rightarrow> error + formatted" where
  "format_day_sec A day sec order ydigits dash sep colon digits suffix proleptic buffer kind =
     (if order = [] then Inl (IndexError ''string index out of range'')
      else if hd order \<noteq> CHR ''T'' \<and> last order \<noteq> CHR ''T''
      then Inl (ValueError (quoted ''T'' @ '' missing from order specification''))
      else
        ebind (broadcast_arrays (nd_map utils_int day) sec) (\<lambda>(shape, days, secs).
        ebind (check_buffer ''date'' kind shape buffer) (\<lambda>kind.
        day_sec_compose A shape (map (rollover A (day_sec_digits digits)) (zip days secs))
          order ydigits dash sep colon digits suffix proleptic buffer kind)))"

section \<open>An adapter for concrete evaluations\<close>

text \<open>
  Modelled from the spec: \<^verbatim>\<open>julian.calendar\<close>, \<^verbatim>\<open>julian.leap_seconds\<close> and
  \<^verbatim>\<open>julian.time_of_day\<close> are not under the source tree. Section 6 of the specification
  names their operations and section 8 fixes day 0 as 2000-01-01. The instance below is
  the Gregorian calendar counted from that day, a time of day of \<open>3600 h + 60 m + s\<close>
  seconds, and days of 86400 seconds but for two that end in a leap second. It is used
  only where a statement is evaluated at a concrete input; every general theorem is about
  an arbitrary adapter.
\<close>

definition ex_day_from_ymd0 :: "int \<Rightarrow> int \<Rightarrow> int \<Rightarrow> int" where
  "ex_day_from_ymd0 y m d =
     (let y1 = (if m \<le> 2 then y - 1 else y);
          era = y1 div 400;
          yoe = y1 - era * 400;
          doy = (153 * (if m > 2 then m - 3 else m + 9) + 2) div 5 + d - 1;
          doe = yoe * 365 + yoe div 4 - yoe div 100 + doy
      in era * 146097 + doe - 730425)"

definition ex_ymd_from_day :: "int \<Rightarrow> bool \<Rightarrow> int \<times> int \<times> int" where
  "ex_ymd_from_day day proleptic =
     (let z = day + 730425;
          era = z div 146097;
          doe = z - era * 146097;
          yoe = (doe - doe div 1460 + doe div 36524 - doe div 146096) div 365;
          doy = doe - (365 * yoe + yoe div 4 - yoe div 100);
          mp = (5 * doy + 2) div 153;
          d = doy - (153 * mp + 2) div 5 + 1;
          m = (if mp < 10 then mp + 3 else mp - 9);
          y = yoe + era * 400
      in (if m \<le> 2 then y + 1 else y, m, d))"

definition ex_day_from_ymd :: "int \<Rightarrow> int \<Rightarrow> int \<Rightarrow> bool \<Rightarrow> bool \<Rightarrow> error + int" where
  "ex_day_from_ymd y m d validate proleptic =
     (if validate \<and> (m < 1 \<or> 12 < m \<or> d < 1
                      \<or> ex_ymd_from_day (ex_day_from_ymd0 y m d) proleptic \<noteq> (y, m, d))
      then Inl (ValueError ''invalid calendar date'')
      else Inr (ex_day_from_ymd0 y m d))"

definition ex_day_from_yd :: "int \<Rightarrow> int \<Rightarrow> bool \<Rightarrow> bool \<Rightarrow> error + int" where
  "ex_day_from_yd y d validate proleptic =
     (if validate \<and> (d < 1 \<or> ex_day_from_ymd0 (y + 1) 1 1 - ex_day_from_ymd0 y 1 1 < d)
      then Inl (ValueError ''invalid day of year'')
      else Inr (ex_day_from_ymd0 y 1 1 + d - 1))"

definition ex_yd_from_day :: "int \<Rightarrow> bool \<Rightarrow> int \<times> int" where
  "ex_yd_from_day day proleptic =
     (case ex_ymd_from_day day proleptic of
        (y, m, d) \<Rightarrow> (y, day - ex_day_from_ymd0 y 1 1 + 1))"

definition ex_seconds_on_day :: "int \<Rightarrow> int" where
  "ex_seconds_on_day day = (if day = 2191 \<or> day = 3287 then 86401 else 86400)"

fun num_add :: "num \<Rightarrow> num \<Rightarrow> num" where
  "num_add (PyInt a) (PyInt b) = PyInt (a + b)"
| "num_add a b = PyFloat (to_rat a + to_rat b)"

definition ex_sec_from_hms :: "num \<Rightarrow> num \<Rightarrow> num \<Rightarrow> bool \<Rightarrow> bool \<Rightarrow> error + num" where
  "ex_sec_from_hms h m s validate leapsecs =
     (if validate \<and> (to_rat h < 0 \<or> 24 \<le> to_rat h \<or> to_rat m < 0 \<or> 60 \<le> to_rat m
                      \<or> to_rat s < 0
                      \<or> (if leapsecs \<and> to_rat h = 23 \<and> to_rat m = 59 then 70 else 60) \<le> to_rat s)
      then Inl (ValueError ''invalid time of day'')
      else Inr (case (h, m, s) of
                  (PyInt hv, PyInt mv, PyInt sv) \<Rightarrow> PyInt (3600 * hv + 60 * mv + sv)
                | _ \<Rightarrow> PyFloat (3600 * to_rat h + 60 * to_rat m + to_rat s)))"

definition ex_hms_from_sec :: "num \<Rightarrow> error + int \<times> int \<times> num" where
  "ex_hms_from_sec sec =
     (if to_rat sec < 0 \<or> 86410 \<le> to_rat sec
      then Inl (ValueError ''seconds value is outside allowed range'')
      else (let h = min 23 (\<lfloor>to_rat sec / 3600\<rfloor>);
                m = min 59 (\<lfloor>(to_rat sec - of_int (3600 * h)) / 60\<rfloor>)
            in Inr (h, m, num_add sec (PyInt (- (3600 * h + 60 * m))))))"

definition ex_adapter :: adapter where
  "ex_adapter =
     \<lparr>day_from_ymd = ex_day_from_ymd, day_from_yd = ex_day_from_yd,
      ymd_from_day = ex_ymd_from_day, yd_from_day = ex_yd_from_day,
      seconds_on_day = ex_seconds_on_day,
      sec_from_hms = ex_sec_from_hms, hms_from_sec = ex_hms_from_sec\<rparr>"

section \<open>Properties of the decoder\<close>

subsection \<open>Auxiliary facts\<close>

lemma str_nat_small [simp]:
  "str_nat 0 = ''0''" "str_nat (Suc 0) = ''1''" "str_nat 1 = ''1''" "str_nat 2 = ''2''"
  by (simp_all add: str_nat.simps digit_char_def)

lemma str_nat_nonempty [simp]: "str_nat n \<noteq> []"
  by (subst str_nat.simps) simp

lemma map_of_dash_fields_short: "length k < 5 \<Longrightarrow> map_of (dash_fields w0 ds) k = None"
  by (auto simp: dash_fields_def map_of_eq_None_iff dest!: set_zip_leftD)

lemma table_values:
  "ISO_DATE_FORMAT_INFO k = Some v \<Longrightarrow>
     v \<in> {(4, 5, 8, 2, [4, 7]), (4, 0, 5, 3, [4]), (2, 3, 6, 2, [2, 5]), (2, 0, 3, 3, [2]),
          (4, 4, 6, 2, []), (4, 0, 4, 3, []), (2, 2, 4, 2, []), (2, 0, 2, 3, [])}"
  by (simp add: ISO_DATE_FORMAT_INFO_def split: if_splits)

lemma table_keys:
  "ISO_DATE_FORMAT_INFO k = Some v \<Longrightarrow>
     k \<in> {(10, 2), (8, 1), (8, 2), (6, 1), (8, 0), (7, 0), (6, 0), (5, 0)}"
  by (simp add: ISO_DATE_FORMAT_INFO_def split: if_splits)

lemma dash_fields_simps:
  "dash_fields w0 [] = []"
  "dash_fields w0 [a] = [(''dash0'', 1, w0 + a)]"
  "dash_fields w0 [a, b] = [(''dash0'', 1, w0 + a), (''dash1'', 1, w0 + b)]"
  by (simp_all add: dash_fields_def upt_rec)

lemma dtype_ymd:
  "map_of (day_dtype_dict sy lf w0 w1 w2 kd ke fl (y1, m0, d0, dlen, dashes)) ''y'' = Some (y1, w0)"
  "map_of (day_dtype_dict sy lf w0 w1 w2 kd ke fl (y1, m0, d0, dlen, dashes)) ''d'' =
     Some (dlen, w0 + d0)"
  "map_of (day_dtype_dict sy lf w0 w1 w2 kd ke fl (y1, m0, d0, dlen, dashes)) ''m'' =
     (if m0 \<noteq> 0 then Some (2, w0 + m0) else None)"
  by (simp_all add: day_dtype_dict_def map_of_dash_fields_short)

lemma dtype_dashes:
  assumes "ISO_DATE_FORMAT_INFO k = Some (y1, m0, d0, dlen, dashes)" and "i < length dashes"
  shows "map_of (day_dtype_dict sy lf w0 w1 w2 kd ke fl (y1, m0, d0, dlen, dashes))
           (''dash'' @ str_nat i) = Some (1, w0 + dashes ! i)"
proof -
  from table_values[OF assms(1)]
  consider "dashes = [4, 7]" | "dashes = [4]" | "dashes = [2, 5]" | "dashes = [2]" | "dashes = []"
    by auto
  then show ?thesis
  proof cases
    case 1 with assms(2) have "i = 0 \<or> i = 1" by auto
    with 1 show ?thesis by (auto simp: day_dtype_dict_def dash_fields_simps)
  next
    case 2 with assms(2) have "i = 0" by auto
    with 2 show ?thesis by (simp add: day_dtype_dict_def dash_fields_simps)
  next
    case 3 with assms(2) have "i = 0 \<or> i = 1" by auto
    with 3 show ?thesis by (auto simp: day_dtype_dict_def dash_fields_simps)
  next
    case 4 with assms(2) have "i = 0" by auto
    with 4 show ?thesis by (simp add: day_dtype_dict_def dash_fields_simps)
  next
    case 5 with assms(2) show ?thesis by simp
  qed
qed

lemma layout_Some_eq:
  assumes "ISO_DATE_FORMAT_INFO (date_key st first) = Some info"
  shows "day_from_iso_layout sy st isz first =
     Inr \<lparr>dl_w0 = leading_white st first, dl_w1 = trailing_white st first,
          dl_w2 = int isz - int (length first), dl_kdot = date_kdot first,
          dl_kend = date_kend st first, dl_kints = date_kints st first,
          dl_ndashes = count_list first CHR ''-'', dl_m0 = fst (snd info),
          dl_flen = date_kend st first - date_kdot first - 1,
          dl_dtype = day_dtype_dict sy (int (length first)) (leading_white st first)
                       (trailing_white st first) (int isz - int (length first))
                       (date_kdot first) (date_kend st first)
                       (date_kend st first - date_kdot first - 1) info\<rparr>"
  using assms by (simp add: day_from_iso_layout_def Let_def)

lemma layout_None:
  assumes "ISO_DATE_FORMAT_INFO (date_key st first) = None"
  shows "day_from_iso_layout sy st isz first = Inl (date_format_error first)"
  using assms by (simp add: day_from_iso_layout_def Let_def)

lemma day_from_iso_None:
  assumes "nd_first (elems strings) = Inr first0"
    and "ISO_DATE_FORMAT_INFO (date_key st (rstrip_null first0)) = None"
  shows "day_from_iso A v sy st pr uj strings = Inl (date_format_error (rstrip_null first0))"
  using assms by (simp add: day_from_iso_def ebind_def layout_None Let_def)

lemma ebind_Inr [simp]: "ebind (Inr x) f = f x"
  by (simp add: ebind_def)

lemma ebind_Inl [simp]: "ebind (Inl e) f = Inl e"
  by (simp add: ebind_def)

lemma int_field_Some:
  "map_of dd k = Some (w, off) \<Longrightarrow>
     int_field dd k view = nd_mapE py_int (nd_map (field off w) view)"
  by (simp add: int_field_def get_field_def)

lemma int_field_or0_Some:
  "map_of dd k = Some (w, off) \<Longrightarrow>
     int_field_or0 dd k view = nd_mapE py_int (nd_map (field off w) view)"
  by (simp add: int_field_or0_def has_key_def int_field_Some)

lemma int_field_or0_None:
  "map_of dd k = None \<Longrightarrow> int_field_or0 dd k view = Inr (nd_map (\<lambda>r. 0) view)"
  by (simp add: int_field_or0_def has_key_def)



lemma map_of_app:
  "map_of (xs @ ys) k = (case map_of xs k of None \<Rightarrow> map_of ys k | Some v \<Rightarrow> Some v)"
  by (simp add: map_add_def)

subsection \<open>Date layout classification\<close>

lemma date_key_eq:
  assumes "w0 = (if strip then int (fst (count_white first)) else 0)"
    and "w1 = (if strip then int (snd (count_white first)) else 0)"
    and "kdot = max 0 (py_find first CHR ''.'' 0)"
    and "kend = int (length first) - w1"
    and "kints = (if kdot \<noteq> 0 then kdot else kend)"
  shows "date_key strip first = (kints - w0, count_list first CHR ''-'')"
    and "leading_white strip first = w0"
    and "trailing_white strip first = w1"
    and "date_kdot first = kdot"
    and "date_kend strip first = kend"
  using assms
  by (simp_all add: date_key_def date_kints_def date_kdot_def date_kend_def
        stripped_length_def leading_white_def trailing_white_def)

lemma table_None:
  "k \<notin> {(10, 2), (8, 1), (8, 2), (6, 1), (8, 0), (7, 0), (6, 0), (5, 0)} \<Longrightarrow>
     ISO_DATE_FORMAT_INFO k = None"
  by (simp add: ISO_DATE_FORMAT_INFO_def)

lemma table_Some:
  "(k, y1, m0, d0, dlen, dashes) \<in>
       {((10, 2), 4, 5, 8, 2, [4, 7]), ((8, 1), 4, 0, 5, 3, [4]),
        ((8, 2), 2, 3, 6, 2, [2, 5]), ((6, 1), 2, 0, 3, 3, [2]),
        ((8, 0), 4, 4, 6, 2, []), ((7, 0), 4, 0, 4, 3, []),
        ((6, 0), 2, 2, 4, 2, []), ((5, 0), 2, 0, 2, 3, [])} \<Longrightarrow>
     ISO_DATE_FORMAT_INFO k = Some (y1, m0, d0, dlen, dashes)"
  by (auto simp: ISO_DATE_FORMAT_INFO_def)

lemma dtype_f:
  "map_of (day_dtype_dict sy lf w0 w1 w2 kd ke fl (y1, m0, d0, dlen, dashes)) ''f'' =
     (if kd \<noteq> 0 \<and> fl \<noteq> 0 then Some (fl, kd + 1) else None)"
  by (simp add: day_dtype_dict_def map_of_app map_of_dash_fields_short del: map_of_append)

lemma day_from_iso_unfold:
  assumes "nd_first (elems strings) = Inr first0"
  shows "day_from_iso A validate syntax_chk strip proleptic use_julian strings =
     ebind (day_from_iso_layout syntax_chk strip (itemsize strings) (rstrip_null first0))
       (\<lambda>L. ebind (view_as (dl_dtype L) strings) (\<lambda>view.
               ebind (int_field (dl_dtype L) ''y'' view) (\<lambda>y.
               ebind (int_field (dl_dtype L) ''d'' view) (\<lambda>d.
               ebind (int_field_or0 (dl_dtype L) ''m'' view) (\<lambda>m.
               ebind (int_field_or0 (dl_dtype L) ''f'' view) (\<lambda>f.
               case (if syntax_chk then day_syntax_check L view else None) of
                 Some e \<Rightarrow> Inl e
               | None \<Rightarrow>
                   ebind (days_of_fields A validate
                            (case use_julian of None \<Rightarrow> proleptic | Some uj \<Rightarrow> \<not> uj)
                            (dl_m0 L) y m d) (\<lambda>day.
                   if dl_kdot L \<noteq> 0 then Inr (add_fraction (dl_flen L) day f)
                   else Inr (nd_map PyInt day))))))))"
  by (simp add: day_from_iso_def assms Let_def)

lemma day_fields_eq:
  assumes "map_of dd ''y'' = Some (yw, yoff)"
    and "map_of dd ''d'' = Some (dw, doff)"
    and "map_of dd ''m'' = (if bm then Some (2, moff) else None)"
    and "map_of dd ''f'' = (if bf then Some (fl, foff) else None)"
  shows "ebind (int_field dd ''y'' view) (\<lambda>y.
         ebind (int_field dd ''d'' view) (\<lambda>d.
         ebind (int_field_or0 dd ''m'' view) (\<lambda>m.
         ebind (int_field_or0 dd ''f'' view) (\<lambda>f. K y d m f)))) =
         ebind (nd_mapE py_int (nd_map (field yoff yw) view)) (\<lambda>y.
         ebind (nd_mapE py_int (nd_map (field doff dw) view)) (\<lambda>d.
         ebind (if bm then nd_mapE py_int (nd_map (field moff 2) view)
                else Inr (nd_map (\<lambda>r. 0) view)) (\<lambda>m.
         ebind (if bf then nd_mapE py_int (nd_map (field foff fl) view)
                else Inr (nd_map (\<lambda>r. 0) view)) (\<lambda>f. K y d m f))))"
proof -
  have y: "int_field dd ''y'' view = nd_mapE py_int (nd_map (field yoff yw) view)"
    using assms(1) by (simp add: int_field_Some)
  have d: "int_field dd ''d'' view = nd_mapE py_int (nd_map (field doff dw) view)"
    using assms(2) by (simp add: int_field_Some)
  have m: "int_field_or0 dd ''m'' view =
             (if bm then nd_mapE py_int (nd_map (field moff 2) view)
              else Inr (nd_map (\<lambda>r. 0) view))"
    using assms(3) by (simp add: int_field_or0_Some int_field_or0_None)
  have f: "int_field_or0 dd ''f'' view =
             (if bf then nd_mapE py_int (nd_map (field foff fl) view)
              else Inr (nd_map (\<lambda>r. 0) view))"
    using assms(4) by (simp add: int_field_or0_Some int_field_or0_None)
  show ?thesis by (simp only: y d m f)
qed

text \<open>
  Claim C3, as the code has it. Let \<open>first\<close> be the first element of the batch,
  \<open>w0\<close> and \<open>w1\<close> its counts of leading and trailing blanks when \<open>strip\<close> is set
  and zero otherwise, \<open>kdot\<close> the index of its first decimal point when that index is
  not 0 and else 0, \<open>kend\<close> its length less \<open>w1\<close>, and \<open>kints\<close> the index \<open>kdot\<close>
  when that is not 0 and else \<open>kend\<close>. The layout is looked up under the key
  \<open>(kints - w0, ndashes)\<close>, the second component the number of dashes anywhere in
  \<open>first\<close>. The table is
  \<open>(10,2)\<close> yyyy-mm-dd, \<open>(8,1)\<close> yyyy-ddd, \<open>(8,2)\<close> yy-mm-dd, \<open>(6,1)\<close> yy-ddd,
  \<open>(8,0)\<close> yyyymmdd, \<open>(7,0)\<close> yyyyddd, \<open>(6,0)\<close> yymmdd, \<open>(5,0)\<close> yyddd,
  each with its row \<open>(y1, m0, d0, dlen, dashes)\<close>. A key outside the table makes
  \<open>day_from_iso\<close> raise \<open>ValueError\<close> with the message
  \<open>unrecognized ISO date format: "first"\<close>, whatever the options and the other
  elements. Under a key of the table the year is read from the \<open>y1\<close> characters at
  \<open>w0\<close>, the day from the \<open>dlen\<close> characters at \<open>w0 + d0\<close>, the month from the two
  characters at \<open>w0 + m0\<close> when \<open>m0\<close> is not zero, the fraction from \<open>kdot + 1\<close> up
  to \<open>kend\<close>, dash \<open>i\<close> is the character at \<open>w0 + dashes[i]\<close>, and the result is
  the adapter's day for these values with the fraction added, element by element,
  after the syntax checks when they are asked for.
\<close>

theorem day_from_iso_classification:
  assumes "nd_first (elems strings) = Inr first0"
    and "first = rstrip_null first0"
    and "w0 = (if strip then int (fst (count_white first)) else 0)"
    and "w1 = (if strip then int (snd (count_white first)) else 0)"
    and "kdot = max 0 (py_find first CHR ''.'' 0)"
    and "kend = int (length first) - w1"
    and "kints = (if kdot \<noteq> 0 then kdot else kend)"
    and "key = (kints - w0, count_list first CHR ''-'')"
  shows
    "(key \<notin> {(10, 2), (8, 1), (8, 2), (6, 1), (8, 0), (7, 0), (6, 0), (5, 0)} \<longrightarrow>
        day_from_iso A validate syntax_chk strip proleptic use_julian strings =
          Inl (ValueError (''unrecognized ISO date format: '' @ [dquote] @ first
                             @ [dquote])))
     \<and> (\<forall>y1 m0 d0 dlen dashes.
          (key, y1, m0, d0, dlen, dashes) \<in>
             {((10, 2), 4, 5, 8, 2, [4, 7]), ((8, 1), 4, 0, 5, 3, [4]),
              ((8, 2), 2, 3, 6, 2, [2, 5]), ((6, 1), 2, 0, 3, 3, [2]),
              ((8, 0), 4, 4, 6, 2, []), ((7, 0), 4, 0, 4, 3, []),
              ((6, 0), 2, 2, 4, 2, []), ((5, 0), 2, 0, 2, 3, [])} \<longrightarrow>
          (\<exists>L. day_from_iso_layout syntax_chk strip (itemsize strings) first = Inr L
             \<and> map_of (dl_dtype L) ''y'' = Some (y1, w0)
             \<and> map_of (dl_dtype L) ''d'' = Some (dlen, w0 + d0)
             \<and> map_of (dl_dtype L) ''m'' = (if m0 \<noteq> 0 then Some (2, w0 + m0) else None)
             \<and> map_of (dl_dtype L) ''f'' =
                  (if kdot \<noteq> 0 \<and> kend - kdot - 1 \<noteq> 0
                   then Some (kend - kdot - 1, kdot + 1) else None)
             \<and> (\<forall>i < length dashes.
                   map_of (dl_dtype L) (''dash'' @ str_nat i) = Some (1, w0 + dashes ! i))
             \<and> day_from_iso A validate syntax_chk strip proleptic use_julian strings =
                 ebind (view_as (dl_dtype L) strings) (\<lambda>view.
                 ebind (nd_mapE py_int (nd_map (field w0 y1) view)) (\<lambda>y.
                 ebind (nd_mapE py_int (nd_map (field (w0 + d0) dlen) view)) (\<lambda>d.
                 ebind (if m0 \<noteq> 0 then nd_mapE py_int (nd_map (field (w0 + m0) 2) view)
                        else Inr (nd_map (\<lambda>r. 0) view)) (\<lambda>m.
                 ebind (if kdot \<noteq> 0 \<and> kend - kdot - 1 \<noteq> 0
                        then nd_mapE py_int
                               (nd_map (field (kdot + 1) (kend - kdot - 1)) view)
                        else Inr (nd_map (\<lambda>r. 0) view)) (\<lambda>f.
                 case (if syntax_chk then day_syntax_check L view else None) of
                   Some e \<Rightarrow> Inl e
                 | None \<Rightarrow>
                     ebind (days_of_fields A validate
                              (case use_julian of None \<Rightarrow> proleptic | Some uj \<Rightarrow> \<not> uj)
                              m0 y m d) (\<lambda>day.
                     if kdot \<noteq> 0 then Inr (add_fraction (kend - kdot - 1) day f)
                     else Inr (nd_map PyInt day)))))))))"
proof -
  note U = day_from_iso_unfold[OF assms(1), folded assms(2)]
  note K = date_key_eq[OF assms(3,4,5,6,7), folded assms(8)]
  have E: "key \<notin> {(10, 2), (8, 1), (8, 2), (6, 1), (8, 0), (7, 0), (6, 0), (5, 0)} \<Longrightarrow>
        day_from_iso A validate syntax_chk strip proleptic use_julian strings =
          Inl (ValueError (''unrecognized ISO date format: '' @ [dquote] @ first
                             @ [dquote]))"
  proof -
    assume "key \<notin> {(10, 2), (8, 1), (8, 2), (6, 1), (8, 0), (7, 0), (6, 0), (5, 0)}"
    then have "ISO_DATE_FORMAT_INFO (date_key strip first) = None"
      unfolding K(1) by (rule table_None)
    from layout_None[OF this] show ?thesis
      by (simp add: U date_format_error_def)
  qed
  have S: "\<exists>L. day_from_iso_layout syntax_chk strip (itemsize strings) first = Inr L
             \<and> map_of (dl_dtype L) ''y'' = Some (y1, w0)
             \<and> map_of (dl_dtype L) ''d'' = Some (dlen, w0 + d0)
             \<and> map_of (dl_dtype L) ''m'' = (if m0 \<noteq> 0 then Some (2, w0 + m0) else None)
             \<and> map_of (dl_dtype L) ''f'' =
                  (if kdot \<noteq> 0 \<and> kend - kdot - 1 \<noteq> 0
                   then Some (kend - kdot - 1, kdot + 1) else None)
             \<and> (\<forall>i < length dashes.
                   map_of (dl_dtype L) (''dash'' @ str_nat i) = Some (1, w0 + dashes ! i))
             \<and> day_from_iso A validate syntax_chk strip proleptic use_julian strings =
                 ebind (view_as (dl_dtype L) strings) (\<lambda>view.
                 ebind (nd_mapE py_int (nd_map (field w0 y1) view)) (\<lambda>y.
                 ebind (nd_mapE py_int (nd_map (field (w0 + d0) dlen) view)) (\<lambda>d.
                 ebind (if m0 \<noteq> 0 then nd_mapE py_int (nd_map (field (w0 + m0) 2) view)
                        else Inr (nd_map (\<lambda>r. 0) view)) (\<lambda>m.
                 ebind (if kdot \<noteq> 0 \<and> kend - kdot - 1 \<noteq> 0
                        then nd_mapE py_int
                               (nd_map (field (kdot + 1) (kend - kdot - 1)) view)
                        else Inr (nd_map (\<lambda>r. 0) view)) (\<lambda>f.
                 case (if syntax_chk then day_syntax_check L view else None) of
                   Some e \<Rightarrow> Inl e
                 | None \<Rightarrow>
                     ebind (days_of_fields A validate
                              (case use_julian of None \<Rightarrow> proleptic | Some uj \<Rightarrow> \<not> uj)
                              m0 y m d) (\<lambda>day.
                     if kdot \<noteq> 0 then Inr (add_fraction (kend - kdot - 1) day f)
                     else Inr (nd_map PyInt day)))))))"
    if mem: "(key, y1, m0, d0, dlen, dashes) \<in>
             {((10, 2), 4, 5, 8, 2, [4, 7]), ((8, 1), 4, 0, 5, 3, [4]),
              ((8, 2), 2, 3, 6, 2, [2, 5]), ((6, 1), 2, 0, 3, 3, [2]),
              ((8, 0), 4, 4, 6, 2, []), ((7, 0), 4, 0, 4, 3, []),
              ((6, 0), 2, 2, 4, 2, []), ((5, 0), 2, 0, 2, 3, [])}"
    for y1 m0 d0 dlen dashes
  proof -
    have T: "ISO_DATE_FORMAT_INFO (date_key strip first) = Some (y1, m0, d0, dlen, dashes)"
      unfolding K(1) using mem by (rule table_Some)
    define L where "L = \<lparr>dl_w0 = w0, dl_w1 = w1,
          dl_w2 = int (itemsize strings) - int (length first), dl_kdot = kdot,
          dl_kend = kend, dl_kints = date_kints strip first,
          dl_ndashes = count_list first CHR ''-'', dl_m0 = m0,
          dl_flen = kend - kdot - 1,
          dl_dtype = day_dtype_dict syntax_chk (int (length first)) w0 w1
                       (int (itemsize strings) - int (length first)) kdot kend
                       (kend - kdot - 1) (y1, m0, d0, dlen, dashes)\<rparr>"
    have lay: "day_from_iso_layout syntax_chk strip (itemsize strings) first = Inr L"
      unfolding L_def using layout_Some_eq[OF T, of syntax_chk "itemsize strings"]
      by (simp add: K)
    have dd: "dl_dtype L = day_dtype_dict syntax_chk (int (length first)) w0 w1
                       (int (itemsize strings) - int (length first)) kdot kend
                       (kend - kdot - 1) (y1, m0, d0, dlen, dashes)"
      and sel: "dl_m0 L = m0" "dl_kdot L = kdot" "dl_flen L = kend - kdot - 1"
      by (simp_all add: L_def)
    have my: "map_of (dl_dtype L) ''y'' = Some (y1, w0)"
      and md: "map_of (dl_dtype L) ''d'' = Some (dlen, w0 + d0)"
      and mm: "map_of (dl_dtype L) ''m'' = (if m0 \<noteq> 0 then Some (2, w0 + m0) else None)"
      and mf: "map_of (dl_dtype L) ''f'' =
                  (if kdot \<noteq> 0 \<and> kend - kdot - 1 \<noteq> 0
                   then Some (kend - kdot - 1, kdot + 1) else None)"
      unfolding dd by (simp_all only: dtype_ymd dtype_f)
    have mdash: "\<forall>i < length dashes.
                   map_of (dl_dtype L) (''dash'' @ str_nat i) = Some (1, w0 + dashes ! i)"
      unfolding dd using dtype_dashes[OF T] by blast
    have eq: "day_from_iso A validate syntax_chk strip proleptic use_julian strings =
                 ebind (view_as (dl_dtype L) strings) (\<lambda>view.
                 ebind (nd_mapE py_int (nd_map (field w0 y1) view)) (\<lambda>y.
                 ebind (nd_mapE py_int (nd_map (field (w0 + d0) dlen) view)) (\<lambda>d.
                 ebind (if m0 \<noteq> 0 then nd_mapE py_int (nd_map (field (w0 + m0) 2) view)
                        else Inr (nd_map (\<lambda>r. 0) view)) (\<lambda>m.
                 ebind (if kdot \<noteq> 0 \<and> kend - kdot - 1 \<noteq> 0
                        then nd_mapE py_int
                               (nd_map (field (kdot + 1) (kend - kdot - 1)) view)
                        else Inr (nd_map (\<lambda>r. 0) view)) (\<lambda>f.
                 case (if syntax_chk then day_syntax_check L view else None) of
                   Some e \<Rightarrow> Inl e
                 | None \<Rightarrow>
                     ebind (days_of_fields A validate
                              (case use_julian of None \<Rightarrow> proleptic | Some uj \<Rightarrow> \<not> uj)
                              m0 y m d) (\<lambda>day.
                     if kdot \<noteq> 0 then Inr (add_fraction (kend - kdot - 1) day f)
                     else Inr (nd_map PyInt day)))))))"
      unfolding U lay ebind_Inr sel
      by (subst day_fields_eq[OF my md mm mf]) (rule refl)
    from lay my md mm mf mdash eq show ?thesis by blast
  qed
  from E S show ?thesis by blast
qed

theorem day_from_iso_classification_witness:
  "day_from_iso ex_adapter True False False False None (astype_S (Scalar ''2000-01-02'')) = Inr (Scalar (PyInt 1))
   \<and> day_from_iso ex_adapter True False False False None (astype_S (Scalar ''2000001.5'')) = Inr (Scalar (PyFloat (1 / 2)))
   \<and> day_from_iso ex_adapter True True True False None (astype_S (Array ['' 99-365 '', '' 00-001 ''])) = Inr (Array [PyInt (- 693961), PyInt (- 730485)])
   \<and> day_from_iso ex_adapter True False False False None (astype_S (Scalar ''2000-01-0'')) = Inl (ValueError (''unrecognized ISO date format: '' @ [dquote] @ ''2000-01-0'' @ [dquote]))
   \<and> day_from_iso ex_adapter True False False False None (astype_S (Scalar '' 2000-01-01'')) = Inl (ValueError (''unrecognized ISO date format: '' @ [dquote] @ '' 2000-01-01'' @ [dquote]))
   \<and> day_from_iso ex_adapter True False True False None (astype_S (Scalar '' 2000-01-01'')) = Inr (Scalar (PyInt 0))
   \<and> day_from_iso ex_adapter True False False False None (astype_S (Scalar ''.2000001'')) = Inl (ValueError ''invalid literal for int() with base 10: .200'')
   \<and> day_from_iso ex_adapter True False False False None (astype_S (Scalar ''200000105'')) = Inl (ValueError (''unrecognized ISO date format: '' @ [dquote] @ ''200000105'' @ [dquote]))"
proof -
  have a1: "nd_first (elems (astype_S (Scalar ''2000-01-02''))) = Inr ''2000-01-02''" by code_simp
  have a2: "''2000-01-02'' = rstrip_null ''2000-01-02''" by code_simp
  have a3: "(0::int) = (if False then int (fst (count_white ''2000-01-02'')) else 0)" by code_simp
  have a4: "(0::int) = (if False then int (snd (count_white ''2000-01-02'')) else 0)" by code_simp
  have a5: "(0::int) = max 0 (py_find ''2000-01-02'' CHR ''.'' 0)" by code_simp
  have a6: "(10::int) = int (length ''2000-01-02'') - 0" by code_simp
  have a7: "(10::int) = (if (0::int) \<noteq> 0 then 0 else 10)" by code_simp
  have a8: "((10::int), (2::nat)) = ((10::int) - 0, count_list ''2000-01-02'' CHR ''-'')" by code_simp
  note aT = day_from_iso_classification[where A = ex_adapter and validate = True
      and syntax_chk = False and strip = False and proleptic = False and use_julian = None
      and strings = "astype_S (Scalar ''2000-01-02'')" and first0 = "''2000-01-02''" and first = "''2000-01-02''"
      and ?w0.0 = 0 and ?w1.0 = 0 and kdot = 0 and kend = 10 and kints = 10
      and key = "((10::int), (2::nat))",
      OF a1 a2 a3 a4 a5 a6 a7 a8]
  have ap: "(((10::int), (2::nat)), (4::int), (5::int), (8::int), (2::int), ([4, 7]::int list)) \<in>
             {((10, 2), 4, 5, 8, 2, [4, 7]), ((8, 1), 4, 0, 5, 3, [4]),
              ((8, 2), 2, 3, 6, 2, [2, 5]), ((6, 1), 2, 0, 3, 3, [2]),
              ((8, 0), 4, 4, 6, 2, []), ((7, 0), 4, 0, 4, 3, []),
              ((6, 0), 2, 2, 4, 2, []), ((5, 0), 2, 0, 2, 3, [])}" by simp
  note aC = aT[THEN conjunct2, rule_format, OF ap]
  have av: "case day_from_iso_layout False False (itemsize (astype_S (Scalar ''2000-01-02''))) ''2000-01-02'' of
          Inl e \<Rightarrow> False
        | Inr L \<Rightarrow>
             ebind (view_as (dl_dtype L) (astype_S (Scalar ''2000-01-02''))) (\<lambda>view.
                 ebind (nd_mapE py_int (nd_map (field 0 4) view)) (\<lambda>y.
                 ebind (nd_mapE py_int (nd_map (field (0 + 8) 2) view)) (\<lambda>d.
                 ebind (if (5::int) \<noteq> 0 then nd_mapE py_int (nd_map (field (0 + (5::int)) 2) view)
                        else Inr (nd_map (\<lambda>r. 0) view)) (\<lambda>m.
                 ebind (if (0::int) \<noteq> 0 \<and> 10 - (0::int) - 1 \<noteq> 0
                        then nd_mapE py_int
                               (nd_map (field ((0::int) + 1) (10 - (0::int) - 1)) view)
                        else Inr (nd_map (\<lambda>r. 0) view)) (\<lambda>f.
                 case (if False then day_syntax_check L view else None) of
                   Some e \<Rightarrow> Inl e
                 | None \<Rightarrow>
                     ebind (days_of_fields ex_adapter True
                              (case (None::bool option) of None \<Rightarrow> False | Some uj \<Rightarrow> \<not> uj)
                              (5::int) y m d) (\<lambda>day.
                     if (0::int) \<noteq> 0 then Inr (add_fraction (10 - (0::int) - 1) day f)
                     else Inr (nd_map PyInt day))))))) = Inr (Scalar (PyInt 1))"
    by code_simp
  from aC obtain aL where al: "day_from_iso_layout False False (itemsize (astype_S (Scalar ''2000-01-02''))) ''2000-01-02'' = Inr aL"
    and ae: "day_from_iso ex_adapter True False False False None (astype_S (Scalar ''2000-01-02'')) =
             ebind (view_as (dl_dtype aL) (astype_S (Scalar ''2000-01-02''))) (\<lambda>view.
                 ebind (nd_mapE py_int (nd_map (field 0 4) view)) (\<lambda>y.
                 ebind (nd_mapE py_int (nd_map (field (0 + 8) 2) view)) (\<lambda>d.
                 ebind (if (5::int) \<noteq> 0 then nd_mapE py_int (nd_map (field (0 + (5::int)) 2) view)
                        else Inr (nd_map (\<lambda>r. 0) view)) (\<lambda>m.
                 ebind (if (0::int) \<noteq> 0 \<and> 10 - (0::int) - 1 \<noteq> 0
                        then nd_mapE py_int
                               (nd_map (field ((0::int) + 1) (10 - (0::int) - 1)) view)
                        else Inr (nd_map (\<lambda>r. 0) view)) (\<lambda>f.
                 case (if False then day_syntax_check aL view else None) of
                   Some e \<Rightarrow> Inl e
                 | None \<Rightarrow>
                     ebind (days_of_fields ex_adapter True
                              (case (None::bool option) of None \<Rightarrow> False | Some uj \<Rightarrow> \<not> uj)
                              (5::int) y m d) (\<lambda>day.
                     if (0::int) \<noteq> 0 then Inr (add_fraction (10 - (0::int) - 1) day f)
                     else Inr (nd_map PyInt day)))))))"
    by blast
  from av al have ar: "ebind (view_as (dl_dtype aL) (astype_S (Scalar ''2000-01-02''))) (\<lambda>view.
                 ebind (nd_mapE py_int (nd_map (field 0 4) view)) (\<lambda>y.
                 ebind (nd_mapE py_int (nd_map (field (0 + 8) 2) view)) (\<lambda>d.
                 ebind (if (5::int) \<noteq> 0 then nd_mapE py_int (nd_map (field (0 + (5::int)) 2) view)
                        else Inr (nd_map (\<lambda>r. 0) view)) (\<lambda>m.
                 ebind (if (0::int) \<noteq> 0 \<and> 10 - (0::int) - 1 \<noteq> 0
                        then nd_mapE py_int
                               (nd_map (field ((0::int) + 1) (10 - (0::int) - 1)) view)
                        else Inr (nd_map (\<lambda>r. 0) view)) (\<lambda>f.
                 case (if False then day_syntax_check aL view else None) of
                   Some e \<Rightarrow> Inl e
                 | None \<Rightarrow>
                     ebind (days_of_fields ex_adapter True
                              (case (None::bool option) of None \<Rightarrow> False | Some uj \<Rightarrow> \<not> uj)
                              (5::int) y m d) (\<lambda>day.
                     if (0::int) \<noteq> 0 then Inr (add_fraction (10 - (0::int) - 1) day f)
                     else Inr (nd_map PyInt day))))))) = Inr (Scalar (PyInt 1))"
    by simp
  have aR: "day_from_iso ex_adapter True False False False None (astype_S (Scalar ''2000-01-02'')) = Inr (Scalar (PyInt 1))"
    by (simp only: ae ar)
  have b1: "nd_first (elems (astype_S (Scalar ''2000001.5''))) = Inr ''2000001.5''" by code_simp
  have b2: "''2000001.5'' = rstrip_null ''2000001.5''" by code_simp
  have b3: "(0::int) = (if False then int (fst (count_white ''2000001.5'')) else 0)" by code_simp
  have b4: "(0::int) = (if False then int (snd (count_white ''2000001.5'')) else 0)" by code_simp
  have b5: "(7::int) = max 0 (py_find ''2000001.5'' CHR ''.'' 0)" by code_simp
  have b6: "(9::int) = int (length ''2000001.5'') - 0" by code_simp
  have b7: "(7::int) = (if (7::int) \<noteq> 0 then 7 else 9)" by code_simp
  have b8: "((7::int), (0::nat)) = ((7::int) - 0, count_list ''2000001.5'' CHR ''-'')" by code_simp
  note bT = day_from_iso_classification[where A = ex_adapter and validate = True
      and syntax_chk = False and strip = False and proleptic = False and use_julian = None
      and strings = "astype_S (Scalar ''2000001.5'')" and first0 = "''2000001.5''" and first = "''2000001.5''"
      and ?w0.0 = 0 and ?w1.0 = 0 and kdot = 7 and kend = 9 and kints = 7
      and key = "((7::int), (0::nat))",
      OF b1 b2 b3 b4 b5 b6 b7 b8]
  have bp: "(((7::int), (0::nat)), (4::int), (0::int), (4::int), (3::int), ([]::int list)) \<in>
             {((10, 2), 4, 5, 8, 2, [4, 7]), ((8, 1), 4, 0, 5, 3, [4]),
              ((8, 2), 2, 3, 6, 2, [2, 5]), ((6, 1), 2, 0, 3, 3, [2]),
              ((8, 0), 4, 4, 6, 2, []), ((7, 0), 4, 0, 4, 3, []),
              ((6, 0), 2, 2, 4, 2, []), ((5, 0), 2, 0, 2, 3, [])}" by simp
  note bC = bT[THEN conjunct2, rule_format, OF bp]
  have bv: "case day_from_iso_layout False False (itemsize (astype_S (Scalar ''2000001.5''))) ''2000001.5'' of
          Inl e \<Rightarrow> False
        | Inr L \<Rightarrow>
             ebind (view_as (dl_dtype L) (astype_S (Scalar ''2000001.5''))) (\<lambda>view.
                 ebind (nd_mapE py_int (nd_map (field 0 4) view)) (\<lambda>y.
                 ebind (nd_mapE py_int (nd_map (field (0 + 4) 3) view)) (\<lambda>d.
                 ebind (if (0::int) \<noteq> 0 then nd_mapE py_int (nd_map (field (0 + (0::int)) 2) view)
                        else Inr (nd_map (\<lambda>r. 0) view)) (\<lambda>m.
                 ebind (if (7::int) \<noteq> 0 \<and> 9 - (7::int) - 1 \<noteq> 0
                        then nd_mapE py_int
                               (nd_map (field ((7::int) + 1) (9 - (7::int) - 1)) view)
                        else Inr (nd_map (\<lambda>r. 0) view)) (\<lambda>f.
                 case (if False then day_syntax_check L view else None) of
                   Some e \<Rightarrow> Inl e
                 | None \<Rightarrow>
                     ebind (days_of_fields ex_adapter True
                              (case (None::bool option) of None \<Rightarrow> False | Some uj \<Rightarrow> \<not> uj)
                              (0::int) y m d) (\<lambda>day.
                     if (7::int) \<noteq> 0 then Inr (add_fraction (9 - (7::int) - 1) day f)
                     else Inr (nd_map PyInt day))))))) = Inr (Scalar (PyFloat (1 / 2)))"
    by code_simp
  from bC obtain bL where bl: "day_from_iso_layout False False (itemsize (astype_S (Scalar ''2000001.5''))) ''2000001.5'' = Inr bL"
    and be: "day_from_iso ex_adapter True False False False None (astype_S (Scalar ''2000001.5'')) =
             ebind (view_as (dl_dtype bL) (astype_S (Scalar ''2000001.5''))) (\<lambda>view.
                 ebind (nd_mapE py_int (nd_map (field 0 4) view)) (\<lambda>y.
                 ebind (nd_mapE py_int (nd_map (field (0 + 4) 3) view)) (\<lambda>d.
                 ebind (if (0::int) \<noteq> 0 then nd_mapE py_int (nd_map (field (0 + (0::int)) 2) view)
                        else Inr (nd_map (\<lambda>r. 0) view)) (\<lambda>m.
                 ebind (if (7::int) \<noteq> 0 \<and> 9 - (7::int) - 1 \<noteq> 0
                        then nd_mapE py_int
                               (nd_map (field ((7::int) + 1) (9 - (7::int) - 1)) view)
                        else Inr (nd_map (\<lambda>r. 0) view)) (\<lambda>f.
                 case (if False then day_syntax_check bL view else None) of
                   Some e \<Rightarrow> Inl e
                 | None \<Rightarrow>
                     ebind (days_of_fields ex_adapter True
                              (case (None::bool option) of None \<Rightarrow> False | Some uj \<Rightarrow> \<not> uj)
                              (0::int) y m d) (\<lambda>day.
                     if (7::int) \<noteq> 0 then Inr (add_fraction (9 - (7::int) - 1) day f)
                     else Inr (nd_map PyInt day)))))))"
    by blast
  from bv bl have br: "ebind (view_as (dl_dtype bL) (astype_S (Scalar ''2000001.5''))) (\<lambda>view.
                 ebind (nd_mapE py_int (nd_map (field 0 4) view)) (\<lambda>y.
                 ebind (nd_mapE py_int (nd_map (field (0 + 4) 3) view)) (\<lambda>d.
                 ebind (if (0::int) \<noteq> 0 then nd_mapE py_int (nd_map (field (0 + (0::int)) 2) view)
                        else Inr (nd_map (\<lambda>r. 0) view)) (\<lambda>m.
                 ebind (if (7::int) \<noteq> 0 \<and> 9 - (7::int) - 1 \<noteq> 0
                        then nd_mapE py_int
                               (nd_map (field ((7::int) + 1) (9 - (7::int) - 1)) view)
                        else Inr (nd_map (\<lambda>r. 0) view)) (\<lambda>f.
                 case (if False then day_syntax_check bL view else None) of
                   Some e \<Rightarrow> Inl e
                 | None \<Rightarrow>
                     ebind (days_of_fields ex_adapter True
                              (case (None::bool option) of None \<Rightarrow> False | Some uj \<Rightarrow> \<not> uj)
                              (0::int) y m d) (\<lambda>day.
                     if (7::int) \<noteq> 0 then Inr (add_fraction (9 - (7::int) - 1) day f)
                     else Inr (nd_map PyInt day))))))) = Inr (Scalar (PyFloat (1 / 2)))"
    by simp
  have bR: "day_from_iso ex_adapter True False False False None (astype_S (Scalar ''2000001.5'')) = Inr (Scalar (PyFloat (1 / 2)))"
    by (simp only: be br)
  have c1: "nd_first (elems (astype_S (Array ['' 99-365 '', '' 00-001 '']))) = Inr '' 99-365 ''" by code_simp
  have c2: "'' 99-365 '' = rstrip_null '' 99-365 ''" by code_simp
  have c3: "(1::int) = (if True then int (fst (count_white '' 99-365 '')) else 0)" by code_simp
  have c4: "(1::int) = (if True then int (snd (count_white '' 99-365 '')) else 0)" by code_simp
  have c5: "(0::int) = max 0 (py_find '' 99-365 '' CHR ''.'' 0)" by code_simp
  have c6: "(7::int) = int (length '' 99-365 '') - 1" by code_simp
  have c7: "(7::int) = (if (0::int) \<noteq> 0 then 0 else 7)" by code_simp
  have c8: "((6::int), (1::nat)) = ((7::int) - 1, count_list '' 99-365 '' CHR ''-'')" by code_simp
  note cT = day_from_iso_classification[where A = ex_adapter and validate = True
      and syntax_chk = True and strip = True and proleptic = False and use_julian = None
      and strings = "astype_S (Array ['' 99-365 '', '' 00-001 ''])" and first0 = "'' 99-365 ''" and first = "'' 99-365 ''"
      and ?w0.0 = 1 and ?w1.0 = 1 and kdot = 0 and kend = 7 and kints = 7
      and key = "((6::int), (1::nat))",
      OF c1 c2 c3 c4 c5 c6 c7 c8]
  have cp: "(((6::int), (1::nat)), (2::int), (0::int), (3::int), (3::int), ([2]::int list)) \<in>
             {((10, 2), 4, 5, 8, 2, [4, 7]), ((8, 1), 4, 0, 5, 3, [4]),
              ((8, 2), 2, 3, 6, 2, [2, 5]), ((6, 1), 2, 0, 3, 3, [2]),
              ((8, 0), 4, 4, 6, 2, []), ((7, 0), 4, 0, 4, 3, []),
              ((6, 0), 2, 2, 4, 2, []), ((5, 0), 2, 0, 2, 3, [])}" by simp
  note cC = cT[THEN conjunct2, rule_format, OF cp]
  have cv: "case day_from_iso_layout True True (itemsize (astype_S (Array ['' 99-365 '', '' 00-001 '']))) '' 99-365 '' of
          Inl e \<Rightarrow> False
        | Inr L \<Rightarrow>
             ebind (view_as (dl_dtype L) (astype_S (Array ['' 99-365 '', '' 00-001 '']))) (\<lambda>view.
                 ebind (nd_mapE py_int (nd_map (field 1 2) view)) (\<lambda>y.
                 ebind (nd_mapE py_int (nd_map (field (1 + 3) 3) view)) (\<lambda>d.
                 ebind (if (0::int) \<noteq> 0 then nd_mapE py_int (nd_map (field (1 + (0::int)) 2) view)
                        else Inr (nd_map (\<lambda>r. 0) view)) (\<lambda>m.
                 ebind (if (0::int) \<noteq> 0 \<and> 7 - (0::int) - 1 \<noteq> 0
                        then nd_mapE py_int
                               (nd_map (field ((0::int) + 1) (7 - (0::int) - 1)) view)
                        else Inr (nd_map (\<lambda>r. 0) view)) (\<lambda>f.
                 case (if True then day_syntax_check L view else None) of
                   Some e \<Rightarrow> Inl e
                 | None \<Rightarrow>
                     ebind (days_of_fields ex_adapter True
                              (case (None::bool option) of None \<Rightarrow> False | Some uj \<Rightarrow> \<not> uj)
                              (0::int) y m d) (\<lambda>day.
                     if (0::int) \<noteq> 0 then Inr (add_fraction (7 - (0::int) - 1) day f)
                     else Inr (nd_map PyInt day))))))) = Inr (Array [PyInt (- 693961), PyInt (- 730485)])"
    by code_simp
  from cC obtain cL where cl: "day_from_iso_layout True True (itemsize (astype_S (Array ['' 99-365 '', '' 00-001 '']))) '' 99-365 '' = Inr cL"
    and ce: "day_from_iso ex_adapter True True True False None (astype_S (Array ['' 99-365 '', '' 00-001 ''])) =
             ebind (view_as (dl_dtype cL) (astype_S (Array ['' 99-365 '', '' 00-001 '']))) (\<lambda>view.
                 ebind (nd_mapE py_int (nd_map (field 1 2) view)) (\<lambda>y.
                 ebind (nd_mapE py_int (nd_map (field (1 + 3) 3) view)) (\<lambda>d.
                 ebind (if (0::int) \<noteq> 0 then nd_mapE py_int (nd_map (field (1 + (0::int)) 2) view)
                        else Inr (nd_map (\<lambda>r. 0) view)) (\<lambda>m.
                 ebind (if (0::int) \<noteq> 0 \<and> 7 - (0::int) - 1 \<noteq> 0
                        then nd_mapE py_int
                               (nd_map (field ((0::int) + 1) (7 - (0::int) - 1)) view)
                        else Inr (nd_map (\<lambda>r. 0) view)) (\<lambda>f.
                 case (if True then day_syntax_check cL view else None) of
                   Some e \<Rightarrow> Inl e
                 | None \<Rightarrow>
                     ebind (days_of_fields ex_adapter True
                              (case (None::bool option) of None \<Rightarrow> False | Some uj \<Rightarrow> \<not> uj)
                              (0::int) y m d) (\<lambda>day.
                     if (0::int) \<noteq> 0 then Inr (add_fraction (7 - (0::int) - 1) day f)
                     else Inr (nd_map PyInt day)))))))"
    by blast
  from cv cl have cr: "ebind (view_as (dl_dtype cL) (astype_S (Array ['' 99-365 '', '' 00-001 '']))) (\<lambda>view.
                 ebind (nd_mapE py_int (nd_map (field 1 2) view)) (\<lambda>y.
                 ebind (nd_mapE py_int (nd_map (field (1 + 3) 3) view)) (\<lambda>d.
                 ebind (if (0::int) \<noteq> 0 then nd_mapE py_int (nd_map (field (1 + (0::int)) 2) view)
                        else Inr (nd_map (\<lambda>r. 0) view)) (\<lambda>m.
                 ebind (if (0::int) \<noteq> 0 \<and> 7 - (0::int) - 1 \<noteq> 0
                        then nd_mapE py_int
                               (nd_map (field ((0::int) + 1) (7 - (0::int) - 1)) view)
                        else Inr (nd_map (\<lambda>r. 0) view)) (\<lambda>f.
                 case (if True then day_syntax_check cL view else None) of
                   Some e \<Rightarrow> Inl e
                 | None \<Rightarrow>
                     ebind (days_of_fields ex_adapter True
                              (case (None::bool option) of None \<Rightarrow> False | Some uj \<Rightarrow> \<not> uj)
                              (0::int) y m d) (\<lambda>day.
                     if (0::int) \<noteq> 0 then Inr (add_fraction (7 - (0::int) - 1) day f)
                     else Inr (nd_map PyInt day))))))) = Inr (Array [PyInt (- 693961), PyInt (- 730485)])"
    by simp
  have cR: "day_from_iso ex_adapter True True True False None (astype_S (Array ['' 99-365 '', '' 00-001 ''])) = Inr (Array [PyInt (- 693961), PyInt (- 730485)])"
    by (simp only: ce cr)
  have d1: "nd_first (elems (astype_S (Scalar ''2000-01-0''))) = Inr ''2000-01-0''" by code_simp
  have d2: "''2000-01-0'' = rstrip_null ''2000-01-0''" by code_simp
  have d3: "(0::int) = (if False then int (fst (count_white ''2000-01-0'')) else 0)" by code_simp
  have d4: "(0::int) = (if False then int (snd (count_white ''2000-01-0'')) else 0)" by code_simp
  have d5: "(0::int) = max 0 (py_find ''2000-01-0'' CHR ''.'' 0)" by code_simp
  have d6: "(9::int) = int (length ''2000-01-0'') - 0" by code_simp
  have d7: "(9::int) = (if (0::int) \<noteq> 0 then 0 else 9)" by code_simp
  have d8: "((9::int), (2::nat)) = ((9::int) - 0, count_list ''2000-01-0'' CHR ''-'')" by code_simp
  note dT = day_from_iso_classification[where A = ex_adapter and validate = True
      and syntax_chk = False and strip = False and proleptic = False and use_julian = None
      and strings = "astype_S (Scalar ''2000-01-0'')" and first0 = "''2000-01-0''" and first = "''2000-01-0''"
      and ?w0.0 = 0 and ?w1.0 = 0 and kdot = 0 and kend = 9 and kints = 9
      and key = "((9::int), (2::nat))",
      OF d1 d2 d3 d4 d5 d6 d7 d8]
  have dp: "((9::int), (2::nat)) \<notin> {(10, 2), (8, 1), (8, 2), (6, 1), (8, 0), (7, 0), (6, 0), (5, 0)}" by simp
  note dC = dT[THEN conjunct1, THEN mp, OF dp]
  have dR: "day_from_iso ex_adapter True False False False None (astype_S (Scalar ''2000-01-0'')) = Inl (ValueError (''unrecognized ISO date format: '' @ [dquote] @ ''2000-01-0'' @ [dquote]))"
    using dC by simp
  have e1: "nd_first (elems (astype_S (Scalar '' 2000-01-01''))) = Inr '' 2000-01-01''" by code_simp
  have e2: "'' 2000-01-01'' = rstrip_null '' 2000-01-01''" by code_simp
  have e3: "(0::int) = (if False then int (fst (count_white '' 2000-01-01'')) else 0)" by code_simp
  have e4: "(0::int) = (if False then int (snd (count_white '' 2000-01-01'')) else 0)" by code_simp
  have e5: "(0::int) = max 0 (py_find '' 2000-01-01'' CHR ''.'' 0)" by code_simp
  have e6: "(11::int) = int (length '' 2000-01-01'') - 0" by code_simp
  have e7: "(11::int) = (if (0::int) \<noteq> 0 then 0 else 11)" by code_simp
  have e8: "((11::int), (2::nat)) = ((11::int) - 0, count_list '' 2000-01-01'' CHR ''-'')" by code_simp
  note eT = day_from_iso_classification[where A = ex_adapter and validate = True
      and syntax_chk = False and strip = False and proleptic = False and use_julian = None
      and strings = "astype_S (Scalar '' 2000-01-01'')" and first0 = "'' 2000-01-01''" and first = "'' 2000-01-01''"
      and ?w0.0 = 0 and ?w1.0 = 0 and kdot = 0 and kend = 11 and kints = 11
      and key = "((11::int), (2::nat))",
      OF e1 e2 e3 e4 e5 e6 e7 e8]
  have ep: "((11::int), (2::nat)) \<notin> {(10, 2), (8, 1), (8, 2), (6, 1), (8, 0), (7, 0), (6, 0), (5, 0)}" by simp
  note eC = eT[THEN conjunct1, THEN mp, OF ep]
  have eR: "day_from_iso ex_adapter True False False False None (astype_S (Scalar '' 2000-01-01'')) = Inl (ValueError (''unrecognized ISO date format: '' @ [dquote] @ '' 2000-01-01'' @ [dquote]))"
    using eC by simp
  have f1: "nd_first (elems (astype_S (Scalar '' 2000-01-01''))) = Inr '' 2000-01-01''" by code_simp
  have f2: "'' 2000-01-01'' = rstrip_null '' 2000-01-01''" by code_simp
  have f3: "(1::int) = (if True then int (fst (count_white '' 2000-01-01'')) else 0)" by code_simp
  have f4: "(0::int) = (if True then int (snd (count_white '' 2000-01-01'')) else 0)" by code_simp
  have f5: "(0::int) = max 0 (py_find '' 2000-01-01'' CHR ''.'' 0)" by code_simp
  have f6: "(11::int) = int (length '' 2000-01-01'') - 0" by code_simp
  have f7: "(11::int) = (if (0::int) \<noteq> 0 then 0 else 11)" by code_simp
  have f8: "((10::int), (2::nat)) = ((11::int) - 1, count_list '' 2000-01-01'' CHR ''-'')" by code_simp
  note fT = day_from_iso_classification[where A = ex_adapter and validate = True
      and syntax_chk = False and strip = True and proleptic = False and use_julian = None
      and strings = "astype_S (Scalar '' 2000-01-01'')" and first0 = "'' 2000-01-01''" and first = "'' 2000-01-01''"
      and ?w0.0 = 1 and ?w1.0 = 0 and kdot = 0 and kend = 11 and kints = 11
      and key = "((10::int), (2::nat))",
      OF f1 f2 f3 f4 f5 f6 f7 f8]
  have fp: "(((10::int), (2::nat)), (4::int), (5::int), (8::int), (2::int), ([4, 7]::int list)) \<in>
             {((10, 2), 4, 5, 8, 2, [4, 7]), ((8, 1), 4, 0, 5, 3, [4]),
              ((8, 2), 2, 3, 6, 2, [2, 5]), ((6, 1), 2, 0, 3, 3, [2]),
              ((8, 0), 4, 4, 6, 2, []), ((7, 0), 4, 0, 4, 3, []),
              ((6, 0), 2, 2, 4, 2, []), ((5, 0), 2, 0, 2, 3, [])}" by simp
  note fC = fT[THEN conjunct2, rule_format, OF fp]
  have fv: "case day_from_iso_layout False True (itemsize (astype_S (Scalar '' 2000-01-01''))) '' 2000-01-01'' of
          Inl e \<Rightarrow> False
        | Inr L \<Rightarrow>
             ebind (view_as (dl_dtype L) (astype_S (Scalar '' 2000-01-01''))) (\<lambda>view.
                 ebind (nd_mapE py_int (nd_map (field 1 4) view)) (\<lambda>y.
                 ebind (nd_mapE py_int (nd_map (field (1 + 8) 2) view)) (\<lambda>d.
                 ebind (if (5::int) \<noteq> 0 then nd_mapE py_int (nd_map (field (1 + (5::int)) 2) view)
                        else Inr (nd_map (\<lambda>r. 0) view)) (\<lambda>m.
                 ebind (if (0::int) \<noteq> 0 \<and> 11 - (0::int) - 1 \<noteq> 0
                        then nd_mapE py_int
                               (nd_map (field ((0::int) + 1) (11 - (0::int) - 1)) view)
                        else Inr (nd_map (\<lambda>r. 0) view)) (\<lambda>f.
                 case (if False then day_syntax_check L view else None) of
                   Some e \<Rightarrow> Inl e
                 | None \<Rightarrow>
                     ebind (days_of_fields ex_adapter True
                              (case (None::bool option) of None \<Rightarrow> False | Some uj \<Rightarrow> \<not> uj)
                              (5::int) y m d) (\<lambda>day.
                     if (0::int) \<noteq> 0 then Inr (add_fraction (11 - (0::int) - 1) day f)
                     else Inr (nd_map PyInt day))))))) = Inr (Scalar (PyInt 0))"
    by code_simp
  from fC obtain fL where fl: "day_from_iso_layout False True (itemsize (astype_S (Scalar '' 2000-01-01''))) '' 2000-01-01'' = Inr fL"
    and fe: "day_from_iso ex_adapter True False True False None (astype_S (Scalar '' 2000-01-01'')) =
             ebind (view_as (dl_dtype fL) (astype_S (Scalar '' 2000-01-01''))) (\<lambda>view.
                 ebind (nd_mapE py_int (nd_map (field 1 4) view)) (\<lambda>y.
                 ebind (nd_mapE py_int (nd_map (field (1 + 8) 2) view)) (\<lambda>d.
                 ebind (if (5::int) \<noteq> 0 then nd_mapE py_int (nd_map (field (1 + (5::int)) 2) view)
                        else Inr (nd_map (\<lambda>r. 0) view)) (\<lambda>m.
                 ebind (if (0::int) \<noteq> 0 \<and> 11 - (0::int) - 1 \<noteq> 0
                        then nd_mapE py_int
                               (nd_map (field ((0::int) + 1) (11 - (0::int) - 1)) view)
                        else Inr (nd_map (\<lambda>r. 0) view)) (\<lambda>f.
                 case (if False then day_syntax_check fL view else None) of
                   Some e \<Rightarrow> Inl e
                 | None \<Rightarrow>
                     ebind (days_of_fields ex_adapter True
                              (case (None::bool option) of None \<Rightarrow> False | Some uj \<Rightarrow> \<not> uj)
                              (5::int) y m d) (\<lambda>day.
                     if (0::int) \<noteq> 0 then Inr (add_fraction (11 - (0::int) - 1) day f)
                     else Inr (nd_map PyInt day)))))))"
    by blast
  from fv fl have fr: "ebind (view_as (dl_dtype fL) (astype_S (Scalar '' 2000-01-01''))) (\<lambda>view.
                 ebind (nd_mapE py_int (nd_map (field 1 4) view)) (\<lambda>y.
                 ebind (nd_mapE py_int (nd_map (field (1 + 8) 2) view)) (\<lambda>d.
                 ebind (if (5::int) \<noteq> 0 then nd_mapE py_int (nd_map (field (1 + (5::int)) 2) view)
                        else Inr (nd_map (\<lambda>r. 0) view)) (\<lambda>m.
                 ebind (if (0::int) \<noteq> 0 \<and> 11 - (0::int) - 1 \<noteq> 0
                        then nd_mapE py_int
                               (nd_map (field ((0::int) + 1) (11 - (0::int) - 1)) view)
                        else Inr (nd_map (\<lambda>r. 0) view)) (\<lambda>f.
                 case (if False then day_syntax_check fL view else None) of
                   Some e \<Rightarrow> Inl e
                 | None \<Rightarrow>
                     ebind (days_of_fields ex_adapter True
                              (case (None::bool option) of None \<Rightarrow> False | Some uj \<Rightarrow> \<not> uj)
                              (5::int) y m d) (\<lambda>day.
                     if (0::int) \<noteq> 0 then Inr (add_fraction (11 - (0::int) - 1) day f)
                     else Inr (nd_map PyInt day))))))) = Inr (Scalar (PyInt 0))"
    by simp
  have fR: "day_from_iso ex_adapter True False True False None (astype_S (Scalar '' 2000-01-01'')) = Inr (Scalar (PyInt 0))"
    by (simp only: fe fr)
  have g1: "nd_first (elems (astype_S (Scalar ''.2000001''))) = Inr ''.2000001''" by code_simp
  have g2: "''.2000001'' = rstrip_null ''.2000001''" by code_simp
  have g3: "(0::int) = (if False then int (fst (count_white ''.2000001'')) else 0)" by code_simp
  have g4: "(0::int) = (if False then int (snd (count_white ''.2000001'')) else 0)" by code_simp
  have g5: "(0::int) = max 0 (py_find ''.2000001'' CHR ''.'' 0)" by code_simp
  have g6: "(8::int) = int (length ''.2000001'') - 0" by code_simp
  have g7: "(8::int) = (if (0::int) \<noteq> 0 then 0 else 8)" by code_simp
  have g8: "((8::int), (0::nat)) = ((8::int) - 0, count_list ''.2000001'' CHR ''-'')" by code_simp
  note gT = day_from_iso_classification[where A = ex_adapter and validate = True
      and syntax_chk = False and strip = False and proleptic = False and use_julian = None
      and strings = "astype_S (Scalar ''.2000001'')" and first0 = "''.2000001''" and first = "''.2000001''"
      and ?w0.0 = 0 and ?w1.0 = 0 and kdot = 0 and kend = 8 and kints = 8
      and key = "((8::int), (0::nat))",
      OF g1 g2 g3 g4 g5 g6 g7 g8]
  have gp: "(((8::int), (0::nat)), (4::int), (4::int), (6::int), (2::int), ([]::int list)) \<in>
             {((10, 2), 4, 5, 8, 2, [4, 7]), ((8, 1), 4, 0, 5, 3, [4]),
              ((8, 2), 2, 3, 6, 2, [2, 5]), ((6, 1), 2, 0, 3, 3, [2]),
              ((8, 0), 4, 4, 6, 2, []), ((7, 0), 4, 0, 4, 3, []),
              ((6, 0), 2, 2, 4, 2, []), ((5, 0), 2, 0, 2, 3, [])}" by simp
  note gC = gT[THEN conjunct2, rule_format, OF gp]
  have gv: "case day_from_iso_layout False False (itemsize (astype_S (Scalar ''.2000001''))) ''.2000001'' of
          Inl e \<Rightarrow> False
        | Inr L \<Rightarrow>
             ebind (view_as (dl_dtype L) (astype_S (Scalar ''.2000001''))) (\<lambda>view.
                 ebind (nd_mapE py_int (nd_map (field 0 4) view)) (\<lambda>y.
                 ebind (nd_mapE py_int (nd_map (field (0 + 6) 2) view)) (\<lambda>d.
                 ebind (if (4::int) \<noteq> 0 then nd_mapE py_int (nd_map (field (0 + (4::int)) 2) view)
                        else Inr (nd_map (\<lambda>r. 0) view)) (\<lambda>m.
                 ebind (if (0::int) \<noteq> 0 \<and> 8 - (0::int) - 1 \<noteq> 0
                        then nd_mapE py_int
                               (nd_map (field ((0::int) + 1) (8 - (0::int) - 1)) view)
                        else Inr (nd_map (\<lambda>r. 0) view)) (\<lambda>f.
                 case (if False then day_syntax_check L view else None) of
                   Some e \<Rightarrow> Inl e
                 | None \<Rightarrow>
                     ebind (days_of_fields ex_adapter True
                              (case (None::bool option) of None \<Rightarrow> False | Some uj \<Rightarrow> \<not> uj)
                              (4::int) y m d) (\<lambda>day.
                     if (0::int) \<noteq> 0 then Inr (add_fraction (8 - (0::int) - 1) day f)
                     else Inr (nd_map PyInt day))))))) = Inl (ValueError ''invalid literal for int() with base 10: .200'')"
    by code_simp
  from gC obtain gL where gl: "day_from_iso_layout False False (itemsize (astype_S (Scalar ''.2000001''))) ''.2000001'' = Inr gL"
    and ge: "day_from_iso ex_adapter True False False False None (astype_S (Scalar ''.2000001'')) =
             ebind (view_as (dl_dtype gL) (astype_S (Scalar ''.2000001''))) (\<lambda>view.
                 ebind (nd_mapE py_int (nd_map (field 0 4) view)) (\<lambda>y.
                 ebind (nd_mapE py_int (nd_map (field (0 + 6) 2) view)) (\<lambda>d.
                 ebind (if (4::int) \<noteq> 0 then nd_mapE py_int (nd_map (field (0 + (4::int)) 2) view)
                        else Inr (nd_map (\<lambda>r. 0) view)) (\<lambda>m.
                 ebind (if (0::int) \<noteq> 0 \<and> 8 - (0::int) - 1 \<noteq> 0
                        then nd_mapE py_int
                               (nd_map (field ((0::int) + 1) (8 - (0::int) - 1)) view)
                        else Inr (nd_map (\<lambda>r. 0) view)) (\<lambda>f.
                 case (if False then day_syntax_check gL view else None) of
                   Some e \<Rightarrow> Inl e
                 | None \<Rightarrow>
                     ebind (days_of_fields ex_adapter True
                              (case (None::bool option) of None \<Rightarrow> False | Some uj \<Rightarrow> \<not> uj)
                              (4::int) y m d) (\<lambda>day.
                     if (0::int) \<noteq> 0 then Inr (add_fraction (8 - (0::int) - 1) day f)
                     else Inr (nd_map PyInt day)))))))"
    by blast
  from gv gl have gr: "ebind (view_as (dl_dtype gL) (astype_S (Scalar ''.2000001''))) (\<lambda>view.
                 ebind (nd_mapE py_int (nd_map (field 0 4) view)) (\<lambda>y.
                 ebind (nd_mapE py_int (nd_map (field (0 + 6) 2) view)) (\<lambda>d.
                 ebind (if (4::int) \<noteq> 0 then nd_mapE py_int (nd_map (field (0 + (4::int)) 2) view)
                        else Inr (nd_map (\<lambda>r. 0) view)) (\<lambda>m.
                 ebind (if (0::int) \<noteq> 0 \<and> 8 - (0::int) - 1 \<noteq> 0
                        then nd_mapE py_int
                               (nd_map (field ((0::int) + 1) (8 - (0::int) - 1)) view)
                        else Inr (nd_map (\<lambda>r. 0) view)) (\<lambda>f.
                 case (if False then day_syntax_check gL view else None) of
                   Some e \<Rightarrow> Inl e
                 | None \<Rightarrow>
                     ebind (days_of_fields ex_adapter True
                              (case (None::bool option) of None \<Rightarrow> False | Some uj \<Rightarrow> \<not> uj)
                              (4::int) y m d) (\<lambda>day.
                     if (0::int) \<noteq> 0 then Inr (add_fraction (8 - (0::int) - 1) day f)
                     else Inr (nd_map PyInt day))))))) = Inl (ValueError ''invalid literal for int() with base 10: .200'')"
    by simp
  have gR: "day_from_iso ex_adapter True False False False None (astype_S (Scalar ''.2000001'')) = Inl (ValueError ''invalid literal for int() with base 10: .200'')"
    by (simp only: ge gr)
  have h1: "nd_first (elems (astype_S (Scalar ''200000105''))) = Inr ''200000105''" by code_simp
  have h2: "''200000105'' = rstrip_null ''200000105''" by code_simp
  have h3: "(0::int) = (if False then int (fst (count_white ''200000105'')) else 0)" by code_simp
  have h4: "(0::int) = (if False then int (snd (count_white ''200000105'')) else 0)" by code_simp
  have h5: "(0::int) = max 0 (py_find ''200000105'' CHR ''.'' 0)" by code_simp
  have h6: "(9::int) = int (length ''200000105'') - 0" by code_simp
  have h7: "(9::int) = (if (0::int) \<noteq> 0 then 0 else 9)" by code_simp
  have h8: "((9::int), (0::nat)) = ((9::int) - 0, count_list ''200000105'' CHR ''-'')" by code_simp
  note hT = day_from_iso_classification[where A = ex_adapter and validate = True
      and syntax_chk = False and strip = False and proleptic = False and use_julian = None
      and strings = "astype_S (Scalar ''200000105'')" and first0 = "''200000105''" and first = "''200000105''"
      and ?w0.0 = 0 and ?w1.0 = 0 and kdot = 0 and kend = 9 and kints = 9
      and key = "((9::int), (0::nat))",
      OF h1 h2 h3 h4 h5 h6 h7 h8]
  have hp: "((9::int), (0::nat)) \<notin> {(10, 2), (8, 1), (8, 2), (6, 1), (8, 0), (7, 0), (6, 0), (5, 0)}" by simp
  note hC = hT[THEN conjunct1, THEN mp, OF hp]
  have hR: "day_from_iso ex_adapter True False False False None (astype_S (Scalar ''200000105'')) = Inl (ValueError (''unrecognized ISO date format: '' @ [dquote] @ ''200000105'' @ [dquote]))"
    using hC by simp
  from aR bR cR dR eR fR gR hR show ?thesis by (simp only: simp_thms)
qed

text \<open>
  Claim C3 as worded takes the key to be (stripped length, dash count). The sample
  \<open>2000001.5\<close> has stripped length 9 and no dash, a pair that is not in the table, and
  is decoded all the same (as \<open>yyyyddd\<close> with a fraction); \<open>200000105\<close> has the same
  stripped length and dash count and is rejected. So the classification is not a
  function of that pair.
\<close>

theorem stripped_length_key_counterexample:
  "ISO_DATE_FORMAT_INFO (stripped_length False ''2000001.5'',
                          count_list ''2000001.5'' CHR ''-'') = None
   \<and> day_from_iso ex_adapter True False False False None (astype_S (Scalar ''2000001.5'')) =
       Inr (Scalar (PyFloat (1 / 2)))
   \<and> (stripped_length False ''200000105'', count_list ''200000105'' CHR ''-'') =
       (stripped_length False ''2000001.5'', count_list ''2000001.5'' CHR ''-'')
   \<and> day_from_iso ex_adapter True False False False None (astype_S (Scalar ''200000105'')) =
       Inl (date_format_error ''200000105'')"
  by code_simp

subsection \<open>Time layout inference\<close>














subsection \<open>The date-only path of \<^verbatim>\<open>day_sec_from_iso\<close>\<close>


lemma find_loop_absent: "c \<notin> set xs \<Longrightarrow> find_loop c xs i = -1"
  by (induction xs arbitrary: i) auto

lemma find_loop_core:
  "c \<notin> set core \<Longrightarrow>
     find_loop c (core @ replicate b c) i = (if b = 0 then -1 else int (i + length core))"
  by (induction core arbitrary: i) (auto simp: gr0_conv_Suc)

lemma count_loop_skip:
  "c \<noteq> blank \<Longrightarrow> count_loop (replicate a blank @ c # rest) l = l + a"
proof (induction a arbitrary: l)
  case 0
  then show ?case by (cases rest) auto
next
  case (Suc a)
  obtain x xs where e: "replicate a blank @ c # rest = x # xs"
    by (cases "replicate a blank @ c # rest") auto
  have "count_loop (blank # x # xs) l = count_loop (x # xs) (Suc l)" by simp
  with Suc e show ?case by simp
qed

lemma count_white_padded:
  assumes "core \<noteq> []" "blank \<notin> set core"
  shows "count_white (replicate a blank @ core @ replicate b blank) = (a, b)"
proof -
  obtain c rest where c: "core = c # rest" using assms(1) by (cases core) auto
  obtain d front where d: "rev core = d # front" using assms(1) by (cases "rev core") auto
  have cb: "c \<noteq> blank" using assms(2) c by auto
  have "d \<in> set (rev core)" using d by simp
  then have db: "d \<noteq> blank" using assms(2) by auto
  have 1: "count_loop (replicate a blank @ core @ replicate b blank) 0 = a"
    using count_loop_skip[OF cb, of a "rest @ replicate b blank" 0] c by simp
  have "rev (replicate a blank @ core @ replicate b blank) =
          replicate b blank @ d # (front @ replicate a blank)"
    using d by simp
  then have 2: "count_loop (rev (replicate a blank @ core @ replicate b blank)) 0 = b"
    using count_loop_skip[OF db, of b "front @ replicate a blank" 0] by simp
  show ?thesis using 1 2 c by (simp add: count_white_def)
qed

lemma find_separator_none:
  assumes "core \<noteq> []" "blank \<notin> set core" "CHR ''T'' \<notin> set core"
  shows "find_separator (replicate a blank @ core @ replicate b blank) = (blank, -1)"
proof -
  let ?f = "replicate a blank @ core @ replicate b blank"
  have "CHR ''T'' \<noteq> blank" by (simp add: blank_def)
  then have "CHR ''T'' \<notin> set ?f" using assms(3) by auto
  then have t: "py_find ?f CHR ''T'' 0 = -1"
    by (simp add: py_find_def find_loop_absent)
  have cw: "count_white ?f = (a, b)" by (rule count_white_padded[OF assms(1,2)])
  have pf: "py_find ?f blank a = (if b = 0 then -1 else int (a + length core))"
    using find_loop_core[OF assms(2), of b a] by (simp add: py_find_def)
  have ne: "length core > 0" using assms(1) by simp
  show ?thesis
    using ne by (simp add: find_separator_def Let_def t cw pf)
qed

text \<open>
  Claim C9 (date-only decode path). When the first element, after any leading and
  before any trailing blanks, is a non-empty text with no \<open>T\<close> and no blank in it,
  \<open>day_sec_from_iso\<close> is \<open>day_from_iso\<close> called with the caller's \<open>validate\<close> and
  \<open>strip\<close> and with every other option at its default, paired with the integer \<open>0\<close>
  (or the same error); so the caller's \<open>syntax\<close>, \<open>proleptic\<close> and \<open>use_julian\<close>
  do not change the result.
\<close>

theorem day_sec_from_iso_date_only:
  assumes "nd_first (elems strings) = Inr first0"
    and "rstrip_null first0 = replicate a blank @ core @ replicate b blank"
    and "core \<noteq> []" and "blank \<notin> set core" and "CHR ''T'' \<notin> set core"
  shows "day_sec_from_iso A validate syntax_chk strip proleptic use_julian strings =
           (case day_from_iso A validate False strip False None strings of
              Inl e \<Rightarrow> Inl e
            | Inr day \<Rightarrow> Inr (day, Scalar (PyInt 0)))
         \<and> day_sec_from_iso A validate syntax_chk strip proleptic use_julian strings =
           day_sec_from_iso A validate syntax_chk' strip proleptic' use_julian' strings"
proof -
  have fs: "find_separator (rstrip_null first0) = (blank, -1)"
    unfolding assms(2) by (rule find_separator_none[OF assms(3,4,5)])
  have "\<And>sy pr uj. day_sec_from_iso A validate sy strip pr uj strings =
           (case day_from_iso A validate False strip False None strings of
              Inl e \<Rightarrow> Inl e
            | Inr day \<Rightarrow> Inr (day, Scalar (PyInt 0)))"
    by (simp add: day_sec_from_iso_def Let_def ebind_def assms(1) fs split: sum.splits)
  then show ?thesis by simp
qed

theorem day_sec_from_iso_date_only_witness:
  "day_sec_from_iso ex_adapter True True True True (Some False)
       (astype_S (Array ['' 2000-01-02 '', '' 2000-02-01 ''])) =
     Inr (Array [PyInt 1, PyInt 31], Scalar (PyInt 0))"
proof -
  have h: "nd_first (elems (astype_S (Array ['' 2000-01-02 '', '' 2000-02-01 '']))) =
             Inr '' 2000-01-02 ''"
    by code_simp
  have r: "rstrip_null '' 2000-01-02 '' =
             replicate 1 blank @ ''2000-01-02'' @ replicate 1 blank"
    by code_simp
  have c: "''2000-01-02'' \<noteq> [] \<and> blank \<notin> set ''2000-01-02''
           \<and> CHR ''T'' \<notin> set ''2000-01-02''"
    by code_simp
  have d: "day_from_iso ex_adapter True False True False None
             (astype_S (Array ['' 2000-01-02 '', '' 2000-02-01 ''])) =
           Inr (Array [PyInt 1, PyInt 31])"
    by code_simp
  show ?thesis
    using day_sec_from_iso_date_only[OF h r, where A = ex_adapter and validate = True
        and syntax_chk = True and strip = True and proleptic = True
        and use_julian = "Some False"] c d
    by simp
qed

subsection \<open>Strict syntax verification\<close>

text \<open>
  Claim C5 (strict syntax verification). With \<open>syntax\<close> enabled, \<open>sec_from_iso\<close>
  compares the decimal point of every element with \<open>.\<close> and rejects a batch whose
  second element has another character there. \<open>day_from_iso\<close> puts the same \<open>dot\<close>
  field into its record layout and never compares it: a batch whose second element
  has \<open>x\<close> in place of the decimal point is decoded without an error, the fraction
  of that element read as if the point were there.
\<close>

theorem day_from_iso_syntax_misses_dot:
  "day_from_iso ex_adapter True True False False None
       (astype_S (Array [''2000-001.5'', ''2000-001x5''])) =
     Inr (Array [PyFloat (1 / 2), PyFloat (1 / 2)])
   \<and> sec_from_iso ex_adapter True True False True
       (astype_S (Array [''01:01:01.5'', ''01:01:01x5''])) =
     Inl (ValueError ''inconsistent decimal points in ISO time'')
   \<and> day_from_iso ex_adapter True True False False None
       (astype_S (Array [''2000-001.5'', ''2000x001.5''])) =
     Inl (ValueError ''inconsistent dashes in ISO date'')"
  by code_simp

section \<open>Properties of the encoder\<close>

subsection \<open>Auxiliary facts\<close>

lemma rollover_eq:
  "rollover A (day_sec_digits digits) =
     (\<lambda>(d, s). let r = (of_int \<lfloor>to_rat s * 10 ^ (case digits of None \<Rightarrow> 0 | Some n \<Rightarrow> nat (max n 0))
                                   + 1 / 2\<rfloor> + 1 / 10)
                       / 10 ^ (case digits of None \<Rightarrow> 0 | Some n \<Rightarrow> nat (max n 0))
              in if of_int (seconds_on_day A d) \<le> r
                 then (d + 1, r - of_int (seconds_on_day A d)) else (d, r))"
  by (auto simp: rollover_def day_sec_digits_def round_bias_def Let_def fun_eq_iff)

lemma fmt_d_values:
  "fmt_d 4 2000 = ''2000''" "fmt_d 2 1 = ''01''" "fmt_d 2 2 = ''02''" "fmt_d 2 0 = ''00''"
  by code_simp+

lemma format_day_scalar_int:
  assumes "order \<in> set [''YMD'', ''MDY'', ''DMY'', ''YD'', ''DY'']"
    and "ydigits = 2 \<or> ydigits = 4" and "kind = ''U'' \<or> kind = ''S''"
  shows "format_day A (Scalar (PyInt day)) order ydigits dash ddigits proleptic None kind =
           Inr (as_text kind
                  (day_text order ydigits dash False
                     (case ddigits of None \<Rightarrow> 0 | Some n \<Rightarrow> nat n)
                     (ymd_of A order proleptic day) 0))"
  using assms
  by (auto simp: format_day_def utils_is_float_def check_buffer_def split_day_def
        utils_int_def Let_def case_prod_beta)

lemma day_text_nodot:
  "day_text order ydigits dash False n = day_text order ydigits dash False 0"
  by (simp add: day_text_def fun_eq_iff)

lemma sec_scalar_nodigits:
  assumes "hms_from_sec A sec = Inr (h, m, s)" and "kind = ''U'' \<or> kind = ''S''"
    and "CHR ''%'' \<notin> set (colon @ suffix)"
  shows "format_sec A (Scalar sec) None colon suffix None kind =
           Inr (as_text kind (fmt_d 2 h @ colon @ fmt_d 2 m @ colon
                                @ fmt_d 2 (utils_int s) @ suffix))"
  using assms
  by (auto simp: format_sec_def check_buffer_def split_sec_def sec_text_def py_trunc_def
        utils_int_def Let_def case_prod_beta)

subsection \<open>The step over the end of the day\<close>

text \<open>
  Claim C2 (day rollover in the composer). After the broadcast of the day and the
  seconds to a common shape, every element's seconds are rounded to the resolution in
  force, \<open>(floor (sec * 10^n + 1/2) + 1/10) / 10^n\<close> with \<open>n\<close> the digits asked
  for and zero when none or a negative number is; an element whose rounded seconds
  reach or exceed \<open>seconds_on_day\<close> of its day gets the next day number and the
  seconds less that length, the others keep their day with the rounded seconds; and
  \<open>format_day_sec\<close> renders exactly these values, for a scalar and for a batch. For
  a scalar without a buffer the result is the date of the stepped day and the time of
  the stepped seconds, joined by the separator in the order asked for. In particular,
  with a day 0 of 86400 seconds whose next day is 2000-01-02, day 0 and 86400 seconds
  in the order \<open>YMDT\<close> give \<open>2000-01-02T00:00:00\<close>.
\<close>

theorem format_day_sec_rollover:
  assumes "order \<noteq> []" and "hd order = CHR ''T'' \<or> last order = CHR ''T''"
    and "broadcast_arrays (nd_map utils_int day) sec = Inr (shape, days, secs)"
    and "nd = (case digits of None \<Rightarrow> 0 | Some n \<Rightarrow> nat (max n 0))"
    and "rolled = map (\<lambda>(d, s).
                    let r = (of_int \<lfloor>to_rat s * 10 ^ nd + 1 / 2\<rfloor> + 1 / 10) / 10 ^ nd
                    in if of_int (seconds_on_day A d) \<le> r
                       then (d + 1, r - of_int (seconds_on_day A d)) else (d, r))
                  (zip days secs)"
  shows
    "format_day_sec A day sec order ydigits dash sep colon digits suffix proleptic buffer kind =
       ebind (check_buffer ''date'' kind shape buffer) (\<lambda>kind.
         day_sec_compose A shape rolled order ydigits dash sep colon digits suffix proleptic
           buffer kind)
     \<and> (shape = None \<and> buffer = None \<and> (kind = ''U'' \<or> kind = ''S'') \<longrightarrow>
        format_day_sec A day sec order ydigits dash sep colon digits suffix proleptic buffer
            kind =
          (case hd rolled of (day0, sec0) \<Rightarrow>
             ebind (format_day A (Scalar (PyInt day0)) (filter (\<lambda>c. c \<noteq> CHR ''T'') order)
                      ydigits dash None proleptic None ''U'') (\<lambda>day_formatted.
             ebind (format_sec A (Scalar (PyFloat sec0)) digits colon suffix None ''U'')
               (\<lambda>sec_formatted.
             Inr (as_text kind
                    (if hd order = CHR ''T''
                     then text_of sec_formatted @ sep @ text_of day_formatted
                     else text_of day_formatted @ sep @ text_of sec_formatted))))))
     \<and> (seconds_on_day A 0 = 86400 \<and> ymd_from_day A 1 proleptic = (2000, 1, 2)
          \<and> hms_from_sec A (PyFloat (1 / 10)) = Inr (0, 0, PyFloat (1 / 10)) \<longrightarrow>
        format_day_sec A (Scalar (PyInt 0)) (Scalar (PyInt 86400)) ''YMDT'' 4 ''-'' ''T'' '':''
            None [] proleptic None ''U'' = Inr (Str ''2000-01-02T00:00:00''))"
proof -
  have 1: "format_day_sec A day sec order ydigits dash sep colon digits suffix proleptic
             buffer kind =
       ebind (check_buffer ''date'' kind shape buffer) (\<lambda>kind.
         day_sec_compose A shape rolled order ydigits dash sep colon digits suffix proleptic
           buffer kind)"
    using assms(1,2)
    by (auto simp: format_day_sec_def assms(3) rollover_eq assms(5) assms(4))
  have 2: "format_day_sec A (Scalar (PyInt 0)) (Scalar (PyInt 86400)) ''YMDT'' 4 ''-'' ''T''
             '':'' None [] proleptic None ''U'' = Inr (Str ''2000-01-02T00:00:00'')"
    if h: "seconds_on_day A 0 = 86400 \<and> ymd_from_day A 1 proleptic = (2000, 1, 2)
          \<and> hms_from_sec A (PyFloat (1 / 10)) = Inr (0, 0, PyFloat (1 / 10))"
  proof -
    have f: "\<lfloor>(172801 :: rat) / 2\<rfloor> = 86400"
      by (rule floor_unique) simp_all
    have r: "rollover A (day_sec_digits None) (0, PyInt 86400) = (1, 1 / 10)"
      using h by (simp add: rollover_def day_sec_digits_def round_bias_def Let_def f)
    have d: "format_day A (Scalar (PyInt 1)) ''YMD'' 4 ''-'' None proleptic None ''U'' =
               Inr (Str ''2000-01-02'')"
      using h
      by (simp add: format_day_scalar_int as_text_def day_text_def ymd_of_def day_dlen_def
            fmt_d_values enumerate_eq_zip upt_rec)
    have f0: "\<lfloor>(1 :: rat) / 10\<rfloor> = 0"
      by (rule floor_unique) simp_all
    have s: "format_sec A (Scalar (PyFloat (1 / 10))) None '':'' [] None ''U'' =
               Inr (Str ''00:00:00'')"
      using h f0
      by (simp add: sec_scalar_nodigits[where h = 0 and m = 0 and s = "PyFloat (1 / 10)"]
            as_text_def utils_int_def fmt_d_values)
    show ?thesis
      by (simp add: format_day_sec_def broadcast_arrays_def check_buffer_def utils_int_def r
            day_sec_compose_def d s as_text_def Let_def)
  qed
  have 3: "format_day_sec A day sec order ydigits dash sep colon digits suffix proleptic
             buffer kind =
          (case hd rolled of (day0, sec0) \<Rightarrow>
             ebind (format_day A (Scalar (PyInt day0)) (filter (\<lambda>c. c \<noteq> CHR ''T'') order)
                      ydigits dash None proleptic None ''U'') (\<lambda>day_formatted.
             ebind (format_sec A (Scalar (PyFloat sec0)) digits colon suffix None ''U'')
               (\<lambda>sec_formatted.
             Inr (as_text kind
                    (if hd order = CHR ''T''
                     then text_of sec_formatted @ sep @ text_of day_formatted
                     else text_of day_formatted @ sep @ text_of sec_formatted)))))"
    if h: "shape = None \<and> buffer = None \<and> (kind = ''U'' \<or> kind = ''S'')"
  proof -
    obtain a b where ab: "days = [a]" "secs = [b]"
      using assms(3) h
      by (auto simp: broadcast_arrays_def split: nd.splits if_splits)
    obtain x where x: "rolled = [x]" unfolding assms(5) ab by simp
    show ?thesis
      unfolding 1 using h
      by (auto simp: check_buffer_def day_sec_compose_def x Let_def split: prod.splits)
  qed
  from 1 2 3 show ?thesis by blast
qed

theorem format_day_sec_rollover_witness:
  "format_day_sec ex_adapter (Scalar (PyInt 0)) (Scalar (PyInt 86400)) ''YMDT'' 4 ''-'' ''T'' '':''
       None [] False None ''U'' = Inr (Str ''2000-01-02T00:00:00'')
   \<and> format_day_sec ex_adapter (Scalar (PyInt 0)) (Scalar (PyFloat (863999 / 10))) ''TYD'' 2 ''''
       '' '' '''' (Some 0) [] False None ''S'' = Inr (Bytes ''000000. 00002'')"
proof -
  have o: "''YMDT'' \<noteq> []" "hd ''YMDT'' = CHR ''T'' \<or> last ''YMDT'' = CHR ''T''"
    by simp_all
  have s1: "broadcast_arrays (nd_map utils_int (Scalar (PyInt 0))) (Scalar (PyInt 86400)) =
              Inr (None, [0], [PyInt 86400])"
    by code_simp
  have n1: "(0::nat) = (case (None::int option) of None \<Rightarrow> 0 | Some n \<Rightarrow> nat (max n 0))"
    by simp
  have r1: "[(1 :: int, 1 / 10 :: rat)] = map (\<lambda>(d, s).
                    let r = (of_int \<lfloor>to_rat s * 10 ^ 0 + 1 / 2\<rfloor> + 1 / 10) / 10 ^ 0
                    in if of_int (seconds_on_day ex_adapter d) \<le> r
                       then (d + 1, r - of_int (seconds_on_day ex_adapter d)) else (d, r))
                  (zip [0] [PyInt 86400])"
    by code_simp
  have a1: "seconds_on_day ex_adapter 0 = 86400
            \<and> ymd_from_day ex_adapter 1 False = (2000, 1, 2)
            \<and> hms_from_sec ex_adapter (PyFloat (1 / 10)) = Inr (0, 0, PyFloat (1 / 10))"
    by code_simp
  note T1 = format_day_sec_rollover[where A = ex_adapter and order = "''YMDT''"
      and day = "Scalar (PyInt 0)" and sec = "Scalar (PyInt 86400)" and digits = None
      and proleptic = False, OF o s1 n1 r1]
  note R1 = T1[THEN conjunct2, THEN conjunct2, THEN mp, OF a1]
  have o3: "''TYD'' \<noteq> []" "hd ''TYD'' = CHR ''T'' \<or> last ''TYD'' = CHR ''T''"
    by simp_all
  have s3: "broadcast_arrays (nd_map utils_int (Scalar (PyInt 0)))
              (Scalar (PyFloat (863999 / 10))) = Inr (None, [0], [PyFloat (863999 / 10)])"
    by code_simp
  have n3: "(0::nat) = (case Some (0::int) of None \<Rightarrow> 0 | Some n \<Rightarrow> nat (max n 0))"
    by simp
  have r3: "[(1 :: int, 1 / 10 :: rat)] = map (\<lambda>(d, s).
                    let r = (of_int \<lfloor>to_rat s * 10 ^ 0 + 1 / 2\<rfloor> + 1 / 10) / 10 ^ 0
                    in if of_int (seconds_on_day ex_adapter d) \<le> r
                       then (d + 1, r - of_int (seconds_on_day ex_adapter d)) else (d, r))
                  (zip [0] [PyFloat (863999 / 10)])"
    by code_simp
  have p3: "(None::nat option) = None \<and> (None::buffer option) = None
            \<and> (''S'' = ''U'' \<or> ''S'' = ''S'')"
    by simp
  note T3 = format_day_sec_rollover[where A = ex_adapter and order = "''TYD''"
      and digits = "Some 0" and ydigits = 2 and dash = "''''" and sep = "'' ''"
      and colon = "''''" and suffix = "[]" and proleptic = False and buffer = None
      and kind = "''S''", OF o3 s3 n3 r3, THEN conjunct2, THEN conjunct1, THEN mp, OF p3]
  have v3: "(case hd [(1 :: int, 1 / 10 :: rat)] of (day0, sec0) \<Rightarrow>
             ebind (format_day ex_adapter (Scalar (PyInt day0))
                      (filter (\<lambda>c. c \<noteq> CHR ''T'') ''TYD'') 2 '''' None False None ''U'')
               (\<lambda>day_formatted.
             ebind (format_sec ex_adapter (Scalar (PyFloat sec0)) (Some 0) '''' [] None ''U'')
               (\<lambda>sec_formatted.
             Inr (as_text ''S''
                    (if hd ''TYD'' = CHR ''T''
                     then text_of sec_formatted @ '' '' @ text_of day_formatted
                     else text_of day_formatted @ '' '' @ text_of sec_formatted))))) =
            Inr (Bytes ''000000. 00002'')"
    by code_simp
  from R1 T3 v3 show ?thesis by (simp only: simp_thms)
qed

subsection \<open>The rounding bias in \<^verbatim>\<open>format_sec\<close>\<close>

text \<open>
  Claim C6 (fractional-digit rounding bias). \<open>format_day\<close> and \<open>format_day_sec\<close>
  render the integer part and the fraction of the biased value. \<open>format_sec\<close>
  computes the same biased value and its integer part \<^verbatim>\<open>int_sec\<close>, and then renders
  the hours, minutes and seconds it took from \<^verbatim>\<open>hms_from_sec\<close> of the value as given,
  with the fraction of the biased one: 59.9996 seconds to three digits are biased to
  60.0001, integer part 60 and fraction digits 000, and come out as \<open>00:00:59.000\<close>,
  scalar or batch. The composer, which rounds before it calls \<open>format_sec\<close>, gives
  \<open>00:01:00.000\<close> for the same seconds, and \<open>format_day\<close> carries 1.9996 days to
  three digits into the day.
\<close>

theorem format_sec_integer_part_unrounded:
  "format_sec ex_adapter (Scalar (PyFloat (599996 / 10000))) (Some 3) '':'' [] None ''U'' =
     Inr (Str ''00:00:59.000'')
   \<and> format_sec ex_adapter (Array [PyFloat (599996 / 10000)]) (Some 3) '':'' [] None ''S'' =
     Inr (Arr \<lparr>bkind = ''S'', bchars = 12, bcells = [''00:00:59.000'']\<rparr>)
   \<and> round_bias 3 (599996 / 10000) = 600001 / 10000
   \<and> format_day_sec ex_adapter (Scalar (PyInt 0)) (Scalar (PyFloat (599996 / 10000))) ''YMDT''
       4 ''-'' ''T'' '':'' (Some 3) [] False None ''U'' = Inr (Str ''2000-01-01T00:01:00.000'')
   \<and> format_day ex_adapter (Scalar (PyFloat (19996 / 10000))) ''YMD'' 4 ''-'' (Some 3) False
       None ''U'' = Inr (Str ''2000-01-03.000'')"
  by code_simp

end
